theory Spec2Isabelle
  imports Main
begin

section \<open>Python values, exceptions and messages\<close>

text \<open>
  The connectivity layer (\<^verbatim>\<open>api/common/src/connectorDB.py\<close>, \<^verbatim>\<open>connector_manager.py\<close>,
  \<^verbatim>\<open>crud.py\<close>) passes values of type \<^verbatim>\<open>Any\<close> around: configuration values read from
  JSON, statement parameters and the cells of catalog rows. The model keeps the kinds of value
  the code tells apart: \<^verbatim>\<open>None\<close>, booleans, integers and strings. Floats and nested
  containers are not modelled.
\<close>

datatype pyval = PNone | PBool bool | PInt int | PStr string

text \<open>
  An exception is its class and its message. A message is kept as the parts of the f-string that
  builds it: literal text, an interpolated string and an interpolated list of strings. The
  literal text of the Portuguese messages is written in ASCII, without the accents and without
  the quotation marks around interpolated values.
\<close>

datatype exn_class =
  ValueError | TypeError | KeyError | IndexError | AttributeError | OverflowError
  | ImportError | ConfigError | SecurityError | DatabaseError | ConnectionError

datatype part = Txt string | Val string | Vals "string list"

datatype error = Raise exn_class "part list"

text \<open>Sequencing of steps that may raise: the first exception ends the computation.\<close>

definition andthen :: "error + 'a \<Rightarrow> ('a \<Rightarrow> error + 'b) \<Rightarrow> error + 'b" where
  "andthen r f = (case r of Inl e \<Rightarrow> Inl e | Inr x \<Rightarrow> f x)"

text \<open>Python's \<^verbatim>\<open>sep.join(xs)\<close>.\<close>

fun join :: "string \<Rightarrow> string list \<Rightarrow> string" where
  "join sep [] = []"
| "join sep [x] = x"
| "join sep (x # y # ys) = x @ sep @ join sep (y # ys)"

text \<open>
  The number of positions of a string at which a pattern starts. For the two placeholders of
  this program, \<^verbatim>\<open>?\<close> and \<^verbatim>\<open>%s\<close>, two occurrences cannot overlap, so this is also what
  Python's \<^verbatim>\<open>str.count\<close> returns.
\<close>

primrec occurrences :: "string \<Rightarrow> string \<Rightarrow> nat" where
  "occurrences p [] = (if p = [] then 1 else 0)"
| "occurrences p (c # cs) =
     (if take (length p) (c # cs) = p then 1 else 0) + occurrences p cs"


text \<open>Truthiness, as \<^verbatim>\<open>if x\<close> tests it.\<close>

fun truthy :: "pyval \<Rightarrow> bool" where
  "truthy PNone = False"
| "truthy (PBool b) = b"
| "truthy (PInt n) = (n \<noteq> 0)"
| "truthy (PStr s) = (s \<noteq> [])"

text \<open>\<^verbatim>\<open>x == 0\<close>; \<^verbatim>\<open>False == 0\<close> holds in Python.\<close>

fun equals_zero :: "pyval \<Rightarrow> bool" where
  "equals_zero (PInt n) = (n = 0)"
| "equals_zero (PBool b) = (\<not> b)"
| "equals_zero v = False"

text \<open>
  \<^verbatim>\<open>str.lower\<close> and \<^verbatim>\<open>str.strip\<close> on ASCII text: the letters A to Z, and the
  white space of ASCII (codes 9 to 13, 28 to 32).
\<close>

definition lower_char :: "char \<Rightarrow> char" where
  "lower_char ch =
     (case map_of (zip ''ABCDEFGHIJKLMNOPQRSTUVWXYZ'' ''abcdefghijklmnopqrstuvwxyz'') ch of
        Some l \<Rightarrow> l | None \<Rightarrow> ch)"

definition lower :: "string \<Rightarrow> string" where
  "lower s = map lower_char s"

definition is_space :: "char \<Rightarrow> bool" where
  "is_space ch = (let n = of_char ch :: nat in (9 \<le> n \<and> n \<le> 13) \<or> (28 \<le> n \<and> n \<le> 32))"

definition strip :: "string \<Rightarrow> string" where
  "strip s = rev (dropWhile is_space (rev (dropWhile is_space s)))"

definition startswith :: "string \<Rightarrow> string \<Rightarrow> bool" where
  "startswith s p = (take (length p) s = p)"

text \<open>Decimal numerals, for \<^verbatim>\<open>str(n)\<close> and \<^verbatim>\<open>int(s)\<close>.\<close>

definition digit_char :: "nat \<Rightarrow> char" where
  "digit_char d = ''0123456789'' ! d"

fun decimal :: "nat \<Rightarrow> string" where
  "decimal n = (if n < 10 then [digit_char n] else decimal (n div 10) @ [digit_char (n mod 10)])"

definition is_digit :: "char \<Rightarrow> bool" where
  "is_digit ch = (let n = of_char ch :: nat in 48 \<le> n \<and> n \<le> 57)"

fun digits_value :: "nat \<Rightarrow> string \<Rightarrow> nat" where
  "digits_value acc [] = acc"
| "digits_value acc (ch # cs) = digits_value (10 * acc + (of_char ch - 48)) cs"

text \<open>
  The digits of an integer literal as \<^verbatim>\<open>int(s)\<close> accepts them: digits, with single
  underscores between digits. Around the literal \<^verbatim>\<open>int\<close> skips the white space of C
  (codes 9 to 13 and 32, not 28 to 31), and it refuses a literal of more digits than the
  interpreter's limit for conversions between integers and strings (4300 by default), which
  \<^verbatim>\<open>str(n)\<close> observes too.
\<close>

definition is_int_space :: "char \<Rightarrow> bool" where
  "is_int_space ch = (let n = of_char ch :: nat in (9 \<le> n \<and> n \<le> 13) \<or> n = 32)"

definition int_max_str_digits :: nat where
  "int_max_str_digits = 4300"

fun digit_groups :: "string \<Rightarrow> bool" where
  "digit_groups [] = False"
| "digit_groups [ch] = is_digit ch"
| "digit_groups (ch # ch' # cs) =
     (is_digit ch \<and> (if ch' = CHR ''_'' then digit_groups cs else digit_groups (ch' # cs)))"

definition parse_int :: "string \<Rightarrow> int option" where
  "parse_int s =
     (let t = rev (dropWhile is_int_space (rev (dropWhile is_int_space s)));
          neg = (t \<noteq> [] \<and> hd t = CHR ''-'');
          u = (if t \<noteq> [] \<and> (hd t = CHR ''-'' \<or> hd t = CHR ''+'') then tl t else t)
      in if digit_groups u \<and> length (filter is_digit u) \<le> int_max_str_digits
         then Some ((if neg then - 1 else 1) * int (digits_value 0 (filter is_digit u)))
         else None)"

text \<open>\<^verbatim>\<open>str(x)\<close> and \<^verbatim>\<open>int(x)\<close>.\<close>

fun py_str :: "pyval \<Rightarrow> error + string" where
  "py_str PNone = Inr ''None''"
| "py_str (PBool b) = Inr (if b then ''True'' else ''False'')"
| "py_str (PInt n) =
     (let ds = decimal (nat \<bar>n\<bar>) in
      if int_max_str_digits < length ds then
        Inl (Raise ValueError [Txt ''Exceeds the limit (4300 digits) for integer string conversion''])
      else Inr (if n < 0 then CHR ''-'' # ds else ds))"
| "py_str (PStr s) = Inr s"

fun py_int :: "pyval \<Rightarrow> error + int" where
  "py_int PNone = Inl (Raise TypeError [Txt ''int() argument must be a string, a bytes-like object or a real number, not NoneType''])"
| "py_int (PBool b) = Inr (if b then 1 else 0)"
| "py_int (PInt n) = Inr n"
| "py_int (PStr s) = (case parse_int s of
       Some n \<Rightarrow> Inr n
     | None \<Rightarrow> Inl (Raise ValueError [Txt ''invalid literal for int() with base 10: '', Val s]))"

text \<open>\<^verbatim>\<open>_safe_int_conversion\<close>.\<close>

definition safe_int_conversion :: "pyval \<Rightarrow> int option" where
  "safe_int_conversion v =
     (if v = PNone then None
      else case v of
          PStr s \<Rightarrow>
            (let s' = strip s in
             if s' = [] then None
             else case py_int (PStr s') of Inr n \<Rightarrow> Some n | Inl e \<Rightarrow> None)
        | _ \<Rightarrow> (case py_int v of Inr n \<Rightarrow> Some n | Inl e \<Rightarrow> None))"

text \<open>
  A \<^verbatim>\<open>Dict[str, Any]\<close> is an association list in insertion order: \<^verbatim>\<open>d.get(k)\<close>,
  \<^verbatim>\<open>d[k] = v\<close> (a present key keeps its place), \<^verbatim>\<open>d[k]\<close>.
\<close>

type_synonym pydict = "(string \<times> pyval) list"

definition dict_get :: "(string \<times> 'v) list \<Rightarrow> string \<Rightarrow> 'v option" where
  "dict_get d k = map_of d k"

fun dict_set :: "(string \<times> 'v) list \<Rightarrow> string \<Rightarrow> 'v \<Rightarrow> (string \<times> 'v) list" where
  "dict_set [] k v = [(k, v)]"
| "dict_set ((k', v') # d) k v = (if k' = k then (k, v) # d else (k', v') # dict_set d k v)"

definition dict_item :: "pydict \<Rightarrow> string \<Rightarrow> error + pyval" where
  "dict_item d k = (case map_of d k of None \<Rightarrow> Inl (Raise KeyError [Val k]) | Some v \<Rightarrow> Inr v)"

section \<open>Connectors\<close>

datatype dialect = Firebird | MySQL | PostgreSQL

text \<open>\<^verbatim>\<open>get_placeholder\<close> of \<^verbatim>\<open>FirebirdConnector\<close>, \<^verbatim>\<open>MySQLConnector\<close> and
  \<^verbatim>\<open>PostgreSQLConnector\<close>.\<close>

fun get_placeholder :: "dialect \<Rightarrow> string" where
  "get_placeholder Firebird = ''?''"
| "get_placeholder MySQL = ''%s''"
| "get_placeholder PostgreSQL = ''%s''"

text \<open>
  A row of a result set, as the cursor of each connector returns it: a tuple (Firebird), a
  \<^verbatim>\<open>dict\<close> keyed by column name (MySQL, \<^verbatim>\<open>cursor(dictionary=True)\<close>), or a row of
  psycopg2's \<^verbatim>\<open>DictCursor\<close> (PostgreSQL), which is a list that can also be read by column
  name and is not a \<^verbatim>\<open>dict\<close>: \<open>ListRow\<close> holds its columns in order, each with its name.
\<close>

datatype row = TupleRow "pyval list" | DictRow "(string \<times> pyval) list"
  | ListRow "(string \<times> pyval) list"

text \<open>
  The driver's connection object is outside the repository. The model records what the code
  asks of it: whether it has the attributes \<^verbatim>\<open>rollback\<close> and \<^verbatim>\<open>commit\<close>
  (\<^verbatim>\<open>hasattr\<close>), whether a call raises (the text of the driver's exception) and what
  running a statement gives: the driver's exception, or the rows of \<^verbatim>\<open>fetchall\<close> and
  the \<^verbatim>\<open>rowcount\<close>. \<open>cursor_raises\<close> stands for any exception of \<^verbatim>\<open>_get_cursor\<close>;
  \<open>already_closed\<close> is \<^verbatim>\<open>not is_connected()\<close> for MySQL and \<^verbatim>\<open>closed\<close> for
  PostgreSQL; \<open>close_raises\<close> stands for any exception inside the \<^verbatim>\<open>try\<close> of
  \<^verbatim>\<open>disconnect\<close>.
\<close>

record connection =
  has_rollback :: bool
  has_commit :: bool
  rollback_raises :: "string option"
  commit_raises :: "string option"
  cursor_raises :: "string option"
  close_raises :: "string option"
  already_closed :: bool
  run :: "string \<Rightarrow> pyval list \<Rightarrow> string + (row list \<times> int)"

text \<open>
  What happened, in order: the calls of the connector's public methods and the calls that
  reach the driver.
\<close>

datatype event =
  Call_execute_query string "pyval list option"
  | Call_execute_update string "pyval list option"
  | Call_commit_transaction
  | Call_rollback_transaction
  | Call_disconnect
  | Drv_cursor
  | Drv_execute string "pyval list"
  | Drv_rollback
  | Drv_commit
  | Drv_close

fun is_driver_event :: "event \<Rightarrow> bool" where
  "is_driver_event Drv_cursor = True"
| "is_driver_event (Drv_execute q ps) = True"
| "is_driver_event Drv_rollback = True"
| "is_driver_event Drv_commit = True"
| "is_driver_event Drv_close = True"
| "is_driver_event e = False"

text \<open>
  A connector: the class it is an instance of (\<open>kind\<close>), its attributes \<^verbatim>\<open>config\<close>,
  \<^verbatim>\<open>db_type\<close> and \<^verbatim>\<open>connection\<close> (\<open>conn\<close> here, \<open>None\<close> when there is
  none), and the events so far.
\<close>

record connector =
  kind :: dialect
  config :: pydict
  db_type :: string
  conn :: "connection option"
  log :: "event list"

definition emit :: "event list \<Rightarrow> connector \<Rightarrow> connector" where
  "emit evs c = c\<lparr>log := log c @ evs\<rparr>"

text \<open>
  \<^verbatim>\<open>IDBConnector.__init__\<close>, for the connector class of a dialect: it keeps the
  configuration, has no connection yet, and reads \<^verbatim>\<open>db_type\<close> with
  \<^verbatim>\<open>self.config.get('db_type', 'unknown').lower()\<close>, which raises for a value that is
  not a string.
\<close>

definition connector_init :: "dialect \<Rightarrow> pydict \<Rightarrow> error + connector" where
  "connector_init d cfg =
     (case dict_get cfg ''db_type'' of
        None \<Rightarrow> Inr \<lparr>kind = d, config = cfg, db_type = lower ''unknown'', conn = None, log = []\<rparr>
      | Some (PStr s) \<Rightarrow> Inr \<lparr>kind = d, config = cfg, db_type = lower s, conn = None, log = []\<rparr>
      | Some v \<Rightarrow> Inl (Raise AttributeError [Txt ''object has no attribute lower'']))"

text \<open>\<^verbatim>\<open>params or ()\<close>.\<close>

fun params_or_empty :: "pyval list option \<Rightarrow> pyval list" where
  "params_or_empty None = []"
| "params_or_empty (Some ps) = ps"

text \<open>\<^verbatim>\<open>BaseDBConnector.commit_transaction\<close> and \<^verbatim>\<open>rollback_transaction\<close>. A
  connection without the method raises \<^verbatim>\<open>AttributeError\<close>, which the
  \<^verbatim>\<open>except Exception\<close> wraps like any driver error.\<close>

definition commit_transaction :: "connector \<Rightarrow> (error + unit) \<times> connector" where
  "commit_transaction c =
     (let c1 = emit [Call_commit_transaction] c in
      case conn c of
        None \<Rightarrow> (Inl (Raise ConnectionError [Txt ''Conexao com o banco de dados ('',
                   Val (db_type c), Txt '') nao estabelecida para commit.'']), c1)
      | Some cn \<Rightarrow>
          if \<not> has_commit cn then
            (Inl (Raise DatabaseError [Txt ''Erro ao confirmar transacao '',
               Val (db_type c), Txt '': '', Val ''AttributeError'']), c1)
          else (case commit_raises cn of
              Some e \<Rightarrow> (Inl (Raise DatabaseError [Txt ''Erro ao confirmar transacao '',
                 Val (db_type c), Txt '': '', Val e]), emit [Drv_commit] c1)
            | None \<Rightarrow> (Inr (), emit [Drv_commit] c1)))"

definition rollback_transaction :: "connector \<Rightarrow> (error + unit) \<times> connector" where
  "rollback_transaction c =
     (let c1 = emit [Call_rollback_transaction] c in
      case conn c of
        None \<Rightarrow> (Inl (Raise ConnectionError [Txt ''Conexao com o banco de dados ('',
                   Val (db_type c), Txt '') nao estabelecida para rollback.'']), c1)
      | Some cn \<Rightarrow>
          if \<not> has_rollback cn then
            (Inl (Raise DatabaseError [Txt ''Erro ao desfazer transacao '',
               Val (db_type c), Txt '': '', Val ''AttributeError'']), c1)
          else (case rollback_raises cn of
              Some e \<Rightarrow> (Inl (Raise DatabaseError [Txt ''Erro ao desfazer transacao '',
                 Val (db_type c), Txt '': '', Val e]), emit [Drv_rollback] c1)
            | None \<Rightarrow> (Inr (), emit [Drv_rollback] c1)))"

text \<open>
  The handler shared by \<^verbatim>\<open>execute_query\<close> and \<^verbatim>\<open>execute_update\<close>: a
  best-effort rollback (its own failure is only logged), then the wrapped
  \<^verbatim>\<open>DatabaseError\<close>.
\<close>

definition on_db_error :: "string \<Rightarrow> connection \<Rightarrow> string \<Rightarrow> string \<Rightarrow> connector
    \<Rightarrow> error \<times> connector" where
  "on_db_error what cn q e c =
     (Raise DatabaseError [Txt what, Val q, Txt (CHR 0x0A # '' - ''), Val e],
      if has_rollback cn then emit [Drv_rollback] c else c)"

definition run_statement :: "string \<Rightarrow> connection \<Rightarrow> string \<Rightarrow> pyval list option
    \<Rightarrow> connector \<Rightarrow> (error + (row list \<times> int)) \<times> connector" where
  "run_statement what cn q ps c =
     (case cursor_raises cn of
        Some e \<Rightarrow>
          (let (err, c') = on_db_error what cn q e (emit [Drv_cursor] c) in (Inl err, c'))
      | None \<Rightarrow>
          (let c2 = emit [Drv_cursor, Drv_execute q (params_or_empty ps)] c in
           case run cn q (params_or_empty ps) of
             Inl e \<Rightarrow> (let (err, c') = on_db_error what cn q e c2 in (Inl err, c'))
           | Inr res \<Rightarrow> (Inr res, c2)))"

text \<open>\<^verbatim>\<open>BaseDBConnector.execute_query\<close> and \<^verbatim>\<open>execute_update\<close>.\<close>

definition execute_query :: "connector \<Rightarrow> string \<Rightarrow> pyval list option
    \<Rightarrow> (error + row list) \<times> connector" where
  "execute_query c q ps =
     (let c1 = emit [Call_execute_query q ps] c in
      case conn c of
        None \<Rightarrow> (Inl (Raise ConnectionError [Txt ''Conexao com o banco de dados ('',
                   Val (db_type c), Txt '') nao estabelecida.'']), c1)
      | Some cn \<Rightarrow>
          (case run_statement ''Erro ao executar consulta: '' cn q ps c1 of
             (Inl err, c') \<Rightarrow> (Inl err, c')
           | (Inr (rows, n), c') \<Rightarrow> (Inr rows, c')))"

definition execute_update :: "connector \<Rightarrow> string \<Rightarrow> pyval list option
    \<Rightarrow> (error + int) \<times> connector" where
  "execute_update c q ps =
     (let c1 = emit [Call_execute_update q ps] c in
      case conn c of
        None \<Rightarrow> (Inl (Raise ConnectionError [Txt ''Conexao com o banco de dados ('',
                   Val (db_type c), Txt '') nao estabelecida.'']), c1)
      | Some cn \<Rightarrow>
          (case run_statement ''Erro ao executar atualizacao: '' cn q ps c1 of
             (Inl err, c') \<Rightarrow> (Inl err, c')
           | (Inr (rows, n), c') \<Rightarrow> (Inr n, c')))"

text \<open>
  \<^verbatim>\<open>disconnect\<close>, per dialect. MySQL and PostgreSQL return early, keeping the connection
  object, when the driver reports it closed; a failing \<^verbatim>\<open>close\<close> is logged and the
  connection object is kept.
\<close>

definition disconnect :: "connector \<Rightarrow> connector" where
  "disconnect c =
     (let c1 = emit [Call_disconnect] c in
      case conn c of
        None \<Rightarrow> c1
      | Some cn \<Rightarrow>
          if kind c \<noteq> Firebird \<and> already_closed cn then c1
          else (case close_raises cn of
              Some e \<Rightarrow> emit [Drv_close] c1
            | None \<Rightarrow> (emit [Drv_close] c1)\<lparr>conn := None\<rparr>))"

text \<open>
  \<^verbatim>\<open>BaseDBConnector.__exit__\<close>; \<open>exc\<close> says whether an exception left the guarded block
  (\<^verbatim>\<open>exc_type\<close> is then a class, which is truthy). The failures of the rollback and of the
  commit are caught and logged.
\<close>

definition exit_scope :: "connector \<Rightarrow> bool \<Rightarrow> connector" where
  "exit_scope c exc =
     (case conn c of
        None \<Rightarrow> c
      | Some cn \<Rightarrow>
          disconnect
            (if exc then (if has_rollback cn then emit [Drv_rollback] c else c)
             else (if has_commit cn then emit [Drv_commit] c else c)))"

section \<open>The CRUD engine\<close>

text \<open>\<^verbatim>\<open>CRUD.__init__\<close> stores the connector and the placeholder it reports.\<close>

record crud =
  connector :: connector
  placeholder :: string

definition crud_init :: "connector \<Rightarrow> crud" where
  "crud_init c = \<lparr>connector = c, placeholder = get_placeholder (kind c)\<rparr>"

text \<open>The clauses \<^verbatim>\<open>f"{col} = {self.placeholder}"\<close> built by the loops over the items.\<close>

definition clauses :: "string \<Rightarrow> pydict \<Rightarrow> string list" where
  "clauses ph d = map (\<lambda>(col, val). col @ '' = '' @ ph) d"

definition delegate_update :: "crud \<Rightarrow> string \<Rightarrow> pyval list \<Rightarrow> (error + int) \<times> crud" where
  "delegate_update cr q ps =
     (let (r, c') = execute_update (connector cr) q (Some ps) in (r, cr\<lparr>connector := c'\<rparr>))"

definition create_query :: "string \<Rightarrow> string \<Rightarrow> pydict \<Rightarrow> string" where
  "create_query ph table_name d =
     ''INSERT INTO '' @ table_name @ '' ('' @ join '', '' (map fst d) @ '') VALUES (''
       @ join '', '' (replicate (length d) ph) @ '')''"

definition create :: "crud \<Rightarrow> string \<Rightarrow> pydict \<Rightarrow> (error + int) \<times> crud" where
  "create cr table_name d =
     (if d = [] then (Inr 0, cr)
      else delegate_update cr (create_query (placeholder cr) table_name d) (map snd d))"

definition update_query :: "string \<Rightarrow> string \<Rightarrow> pydict \<Rightarrow> pydict \<Rightarrow> string" where
  "update_query ph table_name d conditions =
     ''UPDATE '' @ table_name @ '' SET '' @ join '', '' (clauses ph d) @ '' WHERE ''
       @ join '' AND '' (clauses ph conditions)"

definition update :: "crud \<Rightarrow> string \<Rightarrow> pydict \<Rightarrow> pydict \<Rightarrow> (error + int) \<times> crud" where
  "update cr table_name d conditions =
     (if d = [] then (Inr 0, cr)
      else if conditions = [] then
        (Inl (Raise ValueError [Txt ''Condicoes devem ser fornecidas para a operacao UPDATE para evitar atualizacoes em massa nao intencionais.'']), cr)
      else delegate_update cr (update_query (placeholder cr) table_name d conditions)
             (map snd d @ map snd conditions))"

definition delete_query :: "string \<Rightarrow> string \<Rightarrow> pydict \<Rightarrow> string" where
  "delete_query ph table_name conditions =
     ''DELETE FROM '' @ table_name @ '' WHERE '' @ join '' AND '' (clauses ph conditions)"

definition delete :: "crud \<Rightarrow> string \<Rightarrow> pydict \<Rightarrow> (error + int) \<times> crud" where
  "delete cr table_name conditions =
     (if conditions = [] then
        (Inl (Raise ValueError [Txt ''Condicoes devem ser fornecidas para a operacao DELETE para evitar exclusoes em massa nao intencionais.'']), cr)
      else delegate_update cr (delete_query (placeholder cr) table_name conditions)
             (map snd conditions))"

section \<open>The connector factories\<close>

text \<open>
  The module-level flags set by the guarded driver imports at process start
  (\<^verbatim>\<open>fdb_available\<close>, \<^verbatim>\<open>mysql_connector_available\<close>, \<^verbatim>\<open>psycopg2_available\<close>).
\<close>

record drivers =
  fdb_available :: bool
  mysql_connector_available :: bool
  psycopg2_available :: bool

text \<open>
  \<^verbatim>\<open>connector_manager.DBConnectionManager\<close>: the class body registers a connector under
  its identifier only when the import of its module, which imports the driver, succeeds.
\<close>

definition initial_connectors :: "drivers \<Rightarrow> (string \<times> dialect) list" where
  "initial_connectors drv =
     (if fdb_available drv then [(''firebird'', Firebird)] else [])
     @ (if mysql_connector_available drv then [(''mysql'', MySQL)] else [])
     @ (if psycopg2_available drv then [(''postgres'', PostgreSQL)] else [])"

definition register_connector :: "(string \<times> 'k) list \<Rightarrow> string \<Rightarrow> 'k \<Rightarrow> (string \<times> 'k) list" where
  "register_connector connectors dbt connector_class = dict_set connectors (lower dbt) connector_class"

text \<open>
  \<^verbatim>\<open>connector_manager.DBConnectionManager.get_connector\<close>. \<open>construct\<close> stands for
  \<^verbatim>\<open>connector_class(**db_config)\<close> followed by \<^verbatim>\<open>connect()\<close>: the text of the
  exception either raises, or the connected connector.
\<close>

definition manager_get_connector :: "(string \<times> 'k) list \<Rightarrow> ('k \<Rightarrow> 'cfg \<Rightarrow> string + 'c)
    \<Rightarrow> string \<Rightarrow> 'cfg \<Rightarrow> error + 'c" where
  "manager_get_connector connectors construct dbt db_config =
     (case dict_get connectors (lower dbt) of
        None \<Rightarrow> Inl (Raise ValueError [Txt ''Tipo de banco de dados '', Val dbt,
                  Txt '' nao suportado ou conector nao disponivel. Conectores disponiveis: '',
                  Vals (map fst connectors)])
      | Some connector_class \<Rightarrow>
          (case construct connector_class db_config of
             Inl e \<Rightarrow> Inl (Raise DatabaseError [Txt ''Nao foi possivel conectar ao banco de dados '',
                       Val dbt, Txt '': '', Val e])
           | Inr c \<Rightarrow> Inr c))"

text \<open>\<^verbatim>\<open>connectorDB.DBConnectionManager._CONNECTOR_MAP\<close> and \<^verbatim>\<open>get_connector\<close>, on the
  decrypted configuration.\<close>

definition CONNECTOR_MAP :: "(string \<times> dialect) list" where
  "CONNECTOR_MAP = [(''firebird'', Firebird), (''mysql'', MySQL), (''postgresql'', PostgreSQL)]"

definition get_connector :: "drivers \<Rightarrow> pydict \<Rightarrow> error + connector" where
  "get_connector drv decrypted_config =
     (case (case dict_get decrypted_config ''db_type'' of None \<Rightarrow> Some [] | Some (PStr s) \<Rightarrow> Some s
            | Some v \<Rightarrow> None) of
        None \<Rightarrow> Inl (Raise AttributeError [Txt ''object has no attribute lower''])
      | Some s \<Rightarrow>
          (let dbt = lower s in
           case dict_get CONNECTOR_MAP dbt of
             None \<Rightarrow> Inl (Raise ConfigError [Txt ''Tipo de banco de dados '', Val dbt,
                       Txt '' nao suportado ou configurado incorretamente.''])
           | Some connector_class \<Rightarrow>
               if dbt = ''firebird'' \<and> \<not> fdb_available drv then
                 Inl (Raise ImportError [Txt ''Driver Firebird (firebird.driver) nao esta disponivel. Por favor, instale-o.''])
               else if dbt = ''mysql'' \<and> \<not> mysql_connector_available drv then
                 Inl (Raise ImportError [Txt ''Driver MySQL (mysql-connector-python) nao esta disponivel. Por favor, instale-o.''])
               else if dbt = ''postgresql'' \<and> \<not> psycopg2_available drv then
                 Inl (Raise ImportError [Txt ''Driver PostgreSQL (psycopg2-binary) nao esta disponivel. Por favor, instale-o.''])
               else connector_init connector_class decrypted_config))"

section \<open>The credential vault\<close>

text \<open>
  The dictionaries of the manager are objects: \<^verbatim>\<open>raw_config\<close> and
  \<^verbatim>\<open>decrypted_config\<close> hold references into a store, and \<^verbatim>\<open>copy.deepcopy\<close>
  allocates a new object. An address is an index into the store.
\<close>

type_synonym store = "pydict list"

record manager =
  raw_config :: nat
  decrypted_config :: nat

definition deepcopy :: "store \<Rightarrow> nat \<Rightarrow> store \<times> nat" where
  "deepcopy h a = (h @ [h ! a], length h)"

definition store_set :: "store \<Rightarrow> nat \<Rightarrow> string \<Rightarrow> pyval \<Rightarrow> store" where
  "store_set h a k v = h[a := dict_set (h ! a) k v]"

text \<open>
  What is outside the program: the key file the candidate path leads to (absent, unreadable,
  or its text), the environment variable \<^verbatim>\<open>DB_ENCRYPTION_KEY\<close>, and Fernet: whether
  the constructor accepts a key (or the text of its exception) and what decrypting a token
  under a key gives.
\<close>

datatype key_file = NoKeyFile | Unreadable string | KeyText string

datatype decrypted = Plain string | InvalidToken | OtherFailure string

record vault_env =
  key_file_at :: "string option \<Rightarrow> key_file"
  env_key :: "string option"
  fernet_rejects :: "string \<Rightarrow> string option"
  fernet_decrypt :: "string \<Rightarrow> string \<Rightarrow> decrypted"

definition sensitive_keys :: "string list" where
  "sensitive_keys = [''password'', ''user'', ''database'', ''host'']"

text \<open>One round of the loop over \<^verbatim>\<open>sensitive_keys\<close>: the value is read from the raw
  configuration, the result is written to the decrypted one.\<close>

definition decrypt_field :: "vault_env \<Rightarrow> string \<Rightarrow> manager \<Rightarrow> store \<Rightarrow> string \<Rightarrow> store" where
  "decrypt_field env fkey m h k =
     (case dict_get (h ! raw_config m) k of
        Some (PStr current_value) \<Rightarrow>
          if startswith current_value ''ENC:'' then
            (case fernet_decrypt env fkey (drop 4 current_value) of
               Plain decoded_value \<Rightarrow> store_set h (decrypted_config m) k (PStr decoded_value)
             | InvalidToken \<Rightarrow> store_set h (decrypted_config m) k PNone
             | OtherFailure e \<Rightarrow> store_set h (decrypted_config m) k PNone)
          else h
      | _ \<Rightarrow> h)"

text \<open>
  The three sources of the key, in order. The candidate path is \<^verbatim>\<open>key_file_path\<close> of the
  raw configuration when it is truthy (\<open>Some\<close> of the path), and \<^verbatim>\<open>secret.key\<close> beside
  the configuration file otherwise (\<open>None\<close>); \<^verbatim>\<open>Path\<close> of a value that is not a
  string raises.
\<close>

definition key_path_candidate :: "pydict \<Rightarrow> error + string option" where
  "key_path_candidate raw =
     (case dict_get raw ''key_file_path'' of
        None \<Rightarrow> Inr None
      | Some v \<Rightarrow>
          if truthy v then
            (case v of PStr s \<Rightarrow> Inr (Some s)
             | _ \<Rightarrow> Inl (Raise TypeError [Txt ''expected str, bytes or os.PathLike object'']))
          else Inr None)"

definition resolve_key :: "vault_env \<Rightarrow> pydict \<Rightarrow> error + pyval" where
  "resolve_key env raw =
     (case key_path_candidate raw of
        Inl e \<Rightarrow> Inl e
      | Inr path \<Rightarrow>
          (case key_file_at env path of
             Unreadable e \<Rightarrow> Inl (Raise SecurityError [Txt ''Erro ao ler o arquivo secret.key: '', Val e])
           | kf \<Rightarrow>
               (let k1 = (case kf of KeyText t \<Rightarrow> PStr (strip t) | _ \<Rightarrow> PNone);
                    k2 = (if \<not> truthy k1
                          then (case env_key env of None \<Rightarrow> PNone | Some e \<Rightarrow> PStr e) else k1);
                    k3 = (if \<not> truthy k2
                          then (case dict_get raw ''encryption_key'' of None \<Rightarrow> PNone | Some v \<Rightarrow> v)
                          else k2)
                in Inr k3)))"

text \<open>
  \<^verbatim>\<open>DBConnectionManager._decrypt_config\<close>. A truthy key that is not a string fails at
  \<^verbatim>\<open>encode\<close>, inside the outer \<^verbatim>\<open>try\<close>, like a key Fernet rejects.
\<close>

definition decrypt_config :: "vault_env \<Rightarrow> manager \<Rightarrow> store \<Rightarrow> error + (manager \<times> store)" where
  "decrypt_config env m h =
     (let (h1, a) = deepcopy h (raw_config m);
          m1 = m\<lparr>decrypted_config := a\<rparr>
      in case resolve_key env (h ! raw_config m) of
           Inl e \<Rightarrow> Inl e
         | Inr k \<Rightarrow>
             if truthy k then
               (case k of
                  PStr fkey \<Rightarrow>
                    (case fernet_rejects env fkey of
                       Some e \<Rightarrow> Inl (Raise SecurityError
                         [Txt ''Erro ao inicializar Fernet com a chave fornecida: '', Val e])
                     | None \<Rightarrow> Inr (m1, foldl (decrypt_field env fkey m1) h1 sensitive_keys))
                | _ \<Rightarrow> Inl (Raise SecurityError
                         [Txt ''Erro ao inicializar Fernet com a chave fornecida: '',
                          Val ''object has no attribute encode'']))
             else Inr (m1, h1))"

section \<open>Metadata introspection\<close>

text \<open>
  The dataclasses \<^verbatim>\<open>ColumnMetadata\<close> and \<^verbatim>\<open>ForeignKeyMetadata\<close>. The fields
  \<^verbatim>\<open>type\<close> of the first and \<^verbatim>\<open>name\<close> of the second are \<open>col_type\<close> and
  \<open>fk_name\<close> here.
\<close>

record ColumnMetadata =
  name :: string
  col_type :: string
  is_nullable :: bool
  default_value :: "string option"
  max_length :: "int option"
  numeric_precision :: "int option"
  numeric_scale :: "int option"
  is_primary_key :: bool
  is_unique :: bool
  comment :: "string option"

record ForeignKeyMetadata =
  fk_name :: string
  column_name :: string
  referenced_table_name :: string
  referenced_column_name :: string
  on_update :: "string option"
  on_delete :: "string option"

text \<open>\<^verbatim>\<open>row[i]\<close> and \<^verbatim>\<open>row['key']\<close>.\<close>

definition tuple_item :: "row \<Rightarrow> nat \<Rightarrow> error + pyval" where
  "tuple_item r i =
     (case r of
        TupleRow xs \<Rightarrow> if i < length xs then Inr (xs ! i)
                       else Inl (Raise IndexError [Txt ''tuple index out of range''])
      | DictRow d \<Rightarrow> Inl (Raise KeyError [Val (decimal i)])
      | ListRow cols \<Rightarrow> if i < length cols then Inr (snd (cols ! i))
                       else Inl (Raise IndexError [Txt ''list index out of range'']))"

text \<open>A for loop that appends one item per row.\<close>

fun collect :: "(row \<Rightarrow> error + 'a) \<Rightarrow> row list \<Rightarrow> error + 'a list" where
  "collect f [] = Inr []"
| "collect f (r # rs) = andthen (f r) (\<lambda>x. andthen (collect f rs) (\<lambda>xs. Inr (x # xs)))"

text \<open>\<^verbatim>\<open>FirebirdConnector._map_firebird_type\<close>.\<close>

definition map_firebird_type :: "int \<Rightarrow> int \<Rightarrow> string" where
  "map_firebird_type field_type field_sub_type =
     (if field_type = 23 then ''BOOLEAN''
      else if field_type = 7 \<and> field_sub_type = 1 then ''BOOLEAN''
      else case map_of [(7, ''SMALLINT''), (8, ''INTEGER''), (10, ''FLOAT''), (12, ''DATE''),
             (13, ''TIME''), (14, ''CHAR''), (16, ''BIGINT''), (27, ''DOUBLE PRECISION''),
             (35, ''TIMESTAMP''), (37, ''VARCHAR''), (261, ''BLOB'')] field_type of
          Some t \<Rightarrow> t | None \<Rightarrow> ''UNKNOWN'')"

text \<open>
  The body of the loop over \<^verbatim>\<open>results_columns\<close> in
  \<^verbatim>\<open>FirebirdConnector.get_table_metadata\<close>: one catalog row, one
  \<^verbatim>\<open>ColumnMetadata\<close>, the cells read and converted in the order of the source.
  \<open>stripped_or\<close> is \<^verbatim>\<open>str(x).strip() if x else other\<close>.
\<close>

definition stripped_or :: "pyval \<Rightarrow> 'a \<Rightarrow> (string \<Rightarrow> 'a) \<Rightarrow> error + 'a" where
  "stripped_or v other f =
     (if truthy v then andthen (py_str v) (\<lambda>t. Inr (f (strip t))) else Inr other)"

definition firebird_column :: "row \<Rightarrow> error + ColumnMetadata" where
  "firebird_column r =
     andthen (tuple_item r 0) (\<lambda>r0.
     andthen (py_str r0) (\<lambda>s0.
     andthen (tuple_item r 1) (\<lambda>r1.
     andthen (py_int r1) (\<lambda>field_type.
     andthen (tuple_item r 2) (\<lambda>r2.
     andthen (tuple_item r 3) (\<lambda>r3.
     andthen (tuple_item r 4) (\<lambda>r4.
     andthen (tuple_item r 5) (\<lambda>r5.
     andthen (tuple_item r 6) (\<lambda>r6.
     andthen (stripped_or r6 None Some) (\<lambda>dv.
     andthen (tuple_item r 7) (\<lambda>r7.
     andthen (stripped_or r7 None Some) (\<lambda>cm.
     andthen (tuple_item r 8) (\<lambda>r8.
     andthen (if r8 \<noteq> PNone then py_int r8 else Inr 0) (\<lambda>field_sub_type.
       let field_precision = safe_int_conversion r3;
           field_scale = safe_int_conversion r4;
           num_precision = field_precision;
           num_scale = (case field_scale of None \<Rightarrow> None | Some sc \<Rightarrow> Some (- sc))
       in Inr \<lparr>name = strip s0,
                col_type = map_firebird_type field_type field_sub_type,
                is_nullable = equals_zero r5,
                default_value = dv,
                max_length = safe_int_conversion r2,
                numeric_precision = num_precision,
                numeric_scale = num_scale,
                is_primary_key = False,
                is_unique = False,
                comment = cm\<rparr>))))))))))))))"

definition firebird_columns :: "row list \<Rightarrow> error + ColumnMetadata list" where
  "firebird_columns results_columns = collect firebird_column results_columns"

text \<open>
  Foreign keys, Firebird: \<^verbatim>\<open>fk_action_map.get(raw, 'UNKNOWN')\<close>, the fields read from one
  row of \<^verbatim>\<open>results_fk\<close>, and the loop, which stores a record in
  \<^verbatim>\<open>foreign_keys_dict\<close> only when the constraint name is not yet a key.
\<close>

definition fk_action_map :: "string \<Rightarrow> string" where
  "fk_action_map raw =
     (if raw \<in> set [''CASCADE'', ''SET NULL'', ''SET DEFAULT'', ''NO ACTION'', ''RESTRICT'']
      then raw else ''UNKNOWN'')"

definition firebird_fk_row :: "row \<Rightarrow> error + ForeignKeyMetadata" where
  "firebird_fk_row r =
     andthen (tuple_item r 0) (\<lambda>fk_name_raw.
     andthen (stripped_or fk_name_raw ''UNNAMED_FK'' id) (\<lambda>n.
     andthen (tuple_item r 1) (\<lambda>r1.
     andthen (py_str r1) (\<lambda>s1.
     andthen (tuple_item r 2) (\<lambda>r2.
     andthen (py_str r2) (\<lambda>s2.
     andthen (tuple_item r 3) (\<lambda>r3.
     andthen (py_str r3) (\<lambda>s3.
     andthen (tuple_item r 4) (\<lambda>r4.
     andthen (stripped_or r4 [] id) (\<lambda>on_update_raw_val.
     andthen (tuple_item r 5) (\<lambda>r5.
     andthen (stripped_or r5 [] id) (\<lambda>on_delete_raw_val.
       Inr \<lparr>fk_name = n,
            column_name = strip s1,
            referenced_table_name = strip s2,
            referenced_column_name = strip s3,
            on_update = Some (fk_action_map on_update_raw_val),
            on_delete = Some (fk_action_map on_delete_raw_val)\<rparr>))))))))))))"

fun firebird_fk_loop :: "(string \<times> ForeignKeyMetadata) list \<Rightarrow> row list
    \<Rightarrow> error + (string \<times> ForeignKeyMetadata) list" where
  "firebird_fk_loop foreign_keys_dict [] = Inr foreign_keys_dict"
| "firebird_fk_loop foreign_keys_dict (r # rs) =
     andthen (firebird_fk_row r) (\<lambda>fk.
       firebird_fk_loop
         (if dict_get foreign_keys_dict (fk_name fk) = None
          then dict_set foreign_keys_dict (fk_name fk) fk else foreign_keys_dict) rs)"

definition firebird_foreign_keys :: "row list \<Rightarrow> error + ForeignKeyMetadata list" where
  "firebird_foreign_keys results_fk =
     andthen (firebird_fk_loop [] results_fk) (\<lambda>d. Inr (map snd d))"

text \<open>
  Foreign keys, MySQL (\<^verbatim>\<open>MySQLConnector.get_table_metadata\<close>) and PostgreSQL
  (\<^verbatim>\<open>PostgreSQLConnector._get_foreign_keys\<close>): the loop raises \<^verbatim>\<open>TypeError\<close> for a
  row that is not a \<^verbatim>\<open>dict\<close>, and appends each row as a record of its own.
  \<open>row_item\<close> is that test followed by \<^verbatim>\<open>row['key']\<close>.
\<close>

definition row_item :: "string \<Rightarrow> row \<Rightarrow> string \<Rightarrow> error + pyval" where
  "row_item what r k =
     (case r of
        DictRow d \<Rightarrow> dict_item d k
      | _ \<Rightarrow> Inl (Raise TypeError [Txt what]))"

definition mysql_fk_row :: "row \<Rightarrow> error + ForeignKeyMetadata" where
  "mysql_fk_row r =
     (let item = row_item ''Os resultados da consulta de chaves estrangeiras MySQL nao foram dicionarios.'' r in
      andthen (item ''CONSTRAINT_NAME'') (\<lambda>v1. andthen (py_str v1) (\<lambda>n.
      andthen (item ''COLUMN_NAME'') (\<lambda>v2. andthen (py_str v2) (\<lambda>c.
      andthen (item ''REFERENCED_TABLE_NAME'') (\<lambda>v3. andthen (py_str v3) (\<lambda>rt.
      andthen (item ''REFERENCED_COLUMN_NAME'') (\<lambda>v4. andthen (py_str v4) (\<lambda>rc.
      andthen (item ''UPDATE_RULE'') (\<lambda>v5. andthen (py_str v5) (\<lambda>u.
      andthen (item ''DELETE_RULE'') (\<lambda>v6. andthen (py_str v6) (\<lambda>d.
        Inr \<lparr>fk_name = n, column_name = c, referenced_table_name = rt,
             referenced_column_name = rc, on_update = Some u,
             on_delete = Some d\<rparr>)))))))))))))"

definition mysql_foreign_keys :: "row list \<Rightarrow> error + ForeignKeyMetadata list" where
  "mysql_foreign_keys fk_results = collect mysql_fk_row fk_results"

text \<open>
  \<^verbatim>\<open>chr(x)\<close> as the code point it denotes, and \<^verbatim>\<open>fk_actions.get(chr(x), 'UNKNOWN')\<close>
  with the keys a, r, c, n, d as code points. The argument of \<^verbatim>\<open>chr\<close> is converted to
  a C \<^verbatim>\<open>int\<close> first.
\<close>

definition py_chr :: "pyval \<Rightarrow> error + int" where
  "py_chr v =
     (case v of
        PInt n \<Rightarrow>
          if n < - 2147483648 \<or> 2147483647 < n then
            Inl (Raise OverflowError [Txt ''Python int too large to convert to C int''])
          else if 0 \<le> n \<and> n < 1114112 then Inr n
          else Inl (Raise ValueError [Txt ''chr() arg not in range(0x110000)''])
      | PBool b \<Rightarrow> Inr (if b then 1 else 0)
      | _ \<Rightarrow> Inl (Raise TypeError [Txt ''an integer is required'']))"

definition fk_actions :: "int \<Rightarrow> string" where
  "fk_actions code =
     (case map_of [(97, ''NO ACTION''), (114, ''RESTRICT''), (99, ''CASCADE''),
        (110, ''SET NULL''), (100, ''SET DEFAULT'')] code of
        Some a \<Rightarrow> a | None \<Rightarrow> ''UNKNOWN'')"

definition postgresql_fk_row :: "row \<Rightarrow> error + ForeignKeyMetadata" where
  "postgresql_fk_row r =
     (let item = row_item ''Os resultados da consulta de chaves estrangeiras PostgreSQL nao foram dicionarios.'' r in
      andthen (item ''confupdtype'') (\<lambda>u.
      andthen (py_chr u) (\<lambda>uc.
      andthen (item ''confdeltype'') (\<lambda>d.
      andthen (py_chr d) (\<lambda>dc.
      andthen (item ''conname'') (\<lambda>v1. andthen (py_str v1) (\<lambda>n.
      andthen (item ''column_name'') (\<lambda>v2. andthen (py_str v2) (\<lambda>c.
      andthen (item ''referenced_table_name'') (\<lambda>v3. andthen (py_str v3) (\<lambda>rt.
      andthen (item ''referenced_column_name'') (\<lambda>v4. andthen (py_str v4) (\<lambda>rc.
        Inr \<lparr>fk_name = n, column_name = c, referenced_table_name = rt,
             referenced_column_name = rc, on_update = Some (fk_actions uc),
             on_delete = Some (fk_actions dc)\<rparr>)))))))))))))"

definition postgresql_get_foreign_keys :: "row list \<Rightarrow> error + ForeignKeyMetadata list" where
  "postgresql_get_foreign_keys results = collect postgresql_fk_row results"

section \<open>Example inputs\<close>

text \<open>
  A connection on which every call succeeds, connectors holding it, and a connector that was
  disconnected.
\<close>

definition demo_connection :: connection where
  "demo_connection = \<lparr>has_rollback = True, has_commit = True, rollback_raises = None,
     commit_raises = None, cursor_raises = None, close_raises = None, already_closed = False,
     run = (\<lambda>q ps. Inr ([], 1))\<rparr>"

definition demo_connector :: "dialect \<Rightarrow> connector" where
  "demo_connector d = \<lparr>kind = d, config = [], db_type = ''unknown'',
     conn = Some demo_connection, log = []\<rparr>"

definition disconnected_connector :: connector where
  "disconnected_connector = \<lparr>kind = Firebird, config = [(''db_type'', PStr ''firebird'')],
     db_type = ''firebird'', conn = None, log = [Call_disconnect]\<rparr>"

text \<open>
  Driver flags; the rows a two-column foreign key comes back as (Firebird tuples, MySQL
  records); two rows of the Firebird column query; a configuration with one good and one
  corrupt ciphertext, the store that holds it, and a vault environment whose key file holds the
  key.
\<close>

definition all_drivers :: drivers where
  "all_drivers = \<lparr>fdb_available = True, mysql_connector_available = True, psycopg2_available = True\<rparr>"

definition no_firebird_driver :: drivers where
  "no_firebird_driver = \<lparr>fdb_available = False, mysql_connector_available = True,
     psycopg2_available = True\<rparr>"

definition fk_tuple_rows :: "row list" where
  "fk_tuple_rows =
     [TupleRow [PStr ''FK_ITEM_PEDIDO   '', PStr ''PEDIDO_ID'', PStr ''PEDIDO'', PStr ''ID'',
        PStr ''CASCADE'', PStr ''RESTRICT''],
      TupleRow [PStr ''FK_ITEM_PEDIDO   '', PStr ''LOJA_ID'', PStr ''PEDIDO'', PStr ''LOJA'',
        PStr ''CASCADE'', PStr ''RESTRICT'']]"

definition no_drivers :: drivers where
  "no_drivers = \<lparr>fdb_available = False, mysql_connector_available = False,
     psycopg2_available = False\<rparr>"

definition fk_dict_rows :: "row list" where
  "fk_dict_rows =
     [DictRow [(''CONSTRAINT_NAME'', PStr ''fk_item_pedido''), (''COLUMN_NAME'', PStr ''pedido_id''),
        (''REFERENCED_TABLE_NAME'', PStr ''pedido''), (''REFERENCED_COLUMN_NAME'', PStr ''id''),
        (''UPDATE_RULE'', PStr ''CASCADE''), (''DELETE_RULE'', PStr ''RESTRICT'')],
      DictRow [(''CONSTRAINT_NAME'', PStr ''fk_item_pedido''), (''COLUMN_NAME'', PStr ''loja_id''),
        (''REFERENCED_TABLE_NAME'', PStr ''pedido''), (''REFERENCED_COLUMN_NAME'', PStr ''loja''),
        (''UPDATE_RULE'', PStr ''CASCADE''), (''DELETE_RULE'', PStr ''RESTRICT'')]]"

definition column_rows :: "row list" where
  "column_rows =
     [TupleRow [PStr ''ID      '', PInt 8, PInt 4, PInt 0, PInt 0, PInt 1, PNone, PNone, PInt 0],
      TupleRow [PStr ''PRECO   '', PInt 16, PInt 8, PInt 18, PInt (- 2), PInt 0, PNone,
        PStr ''preco unitario'', PInt 1]]"

definition demo_env :: vault_env where
  "demo_env = \<lparr>key_file_at = (\<lambda>path. KeyText ''  key-1  ''),
     env_key = None,
     fernet_rejects = (\<lambda>k. if k = ''key-1'' then None else Some ''Fernet key must be 32 url-safe base64-encoded bytes.''),
     fernet_decrypt = (\<lambda>k token. if k = ''key-1'' \<and> token = ''dG9rZW4='' then Plain ''app_user''
                        else InvalidToken)\<rparr>"

definition demo_raw :: pydict where
  "demo_raw = [(''db_type'', PStr ''postgresql''), (''host'', PStr ''localhost''),
     (''port'', PInt 5432), (''database'', PStr ''loja''), (''user'', PStr ''ENC:dG9rZW4=''),
     (''password'', PStr ''ENC:corrupted'')]"

definition demo_store :: store where
  "demo_store = [demo_raw, []]"

definition demo_manager :: manager where
  "demo_manager = \<lparr>raw_config = 0, decrypted_config = 1\<rparr>"

section \<open>The CRUD engine: validation and placeholders\<close>

text \<open>
  C10. \<^verbatim>\<open>CRUD.update\<close> with an empty data mapping returns 0 for every table name and
  every conditions mapping, the empty one included: nothing is raised, and the engine and its
  connector, with the record of calls, are as before, so \<^verbatim>\<open>execute_update\<close> was not
  called. The test for empty data comes before the test for empty conditions.
\<close>

theorem update_empty_data_returns_zero:
  "update cr table_name [] conditions = (Inr 0, cr)"
  by (simp add: update_def)

text \<open>
  C1, as stated, fails where the data mapping is empty too: \<^verbatim>\<open>update\<close> then returns 0
  and raises nothing.
\<close>

theorem empty_conditions_rejected_counterexample:
  "update (crud_init (demo_connector MySQL)) ''clientes'' [] []
     = (Inr 0, crud_init (demo_connector MySQL))"
  by (simp add: update_def)

text \<open>
  C1, amended. With empty conditions, \<^verbatim>\<open>CRUD.update\<close> on a non-empty data mapping and
  \<^verbatim>\<open>CRUD.delete\<close> raise \<^verbatim>\<open>ValueError\<close>; the engine and its connector are as
  before, so no statement was built or sent and \<^verbatim>\<open>execute_update\<close> was not called.
\<close>

theorem empty_conditions_rejected:
  assumes "d \<noteq> []"
  shows "(\<exists>msg. update cr table_name d [] = (Inl (Raise ValueError msg), cr))
       \<and> (\<exists>msg. delete cr table_name [] = (Inl (Raise ValueError msg), cr))"
  using assms by (simp add: update_def delete_def)

theorem empty_conditions_rejected_witness:
  "[(''nome'', PStr ''Ana'')] \<noteq> []
   \<and> (\<exists>msg. update (crud_init (demo_connector MySQL)) ''clientes'' [(''nome'', PStr ''Ana'')] []
          = (Inl (Raise ValueError msg), crud_init (demo_connector MySQL)))
   \<and> (\<exists>msg. delete (crud_init (demo_connector MySQL)) ''clientes'' []
          = (Inl (Raise ValueError msg), crud_init (demo_connector MySQL)))"
proof -
  have h: "[(''nome'', PStr ''Ana'')] \<noteq> []" by simp
  from empty_conditions_rejected [OF h] h show ?thesis by blast
qed

lemma occ_q_append: "occurrences ''?'' (a @ b) = occurrences ''?'' a + occurrences ''?'' b"
  by (induction a) auto

lemma occ_ps_append_r:
  "b = [] \<or> hd b \<noteq> CHR ''s'' \<Longrightarrow>
   occurrences ''%s'' (a @ b) = occurrences ''%s'' a + occurrences ''%s'' b"
proof (induction a)
  case Nil
  then show ?case by simp
next
  case (Cons c cs)
  then show ?case by (cases cs; cases b) auto
qed

lemma occ_ps_append_l:
  "a = [] \<or> last a \<noteq> CHR ''%'' \<Longrightarrow>
   occurrences ''%s'' (a @ b) = occurrences ''%s'' a + occurrences ''%s'' b"
proof (induction a)
  case Nil
  then show ?case by simp
next
  case (Cons c cs)
  then show ?case by (cases cs; cases b) (auto split: if_splits)
qed

lemma occ_q_join:
  "occurrences ''?'' sep = 0 \<Longrightarrow>
   occurrences ''?'' (join sep xs) = sum_list (map (occurrences ''?'') xs)"
  by (induction sep xs rule: join.induct) (simp_all add: occ_q_append)

lemma occ_ps_join:
  assumes "sep \<noteq> []" "hd sep \<noteq> CHR ''s''" "last sep \<noteq> CHR ''%''" "occurrences ''%s'' sep = 0"
  shows "occurrences ''%s'' (join sep xs) = sum_list (map (occurrences ''%s'') xs)"
proof (induction xs rule: induct_list012)
  case 1
  show ?case by simp
next
  case (2 x)
  show ?case by simp
next
  case (3 x y ys)
  have "occurrences ''%s'' (x @ sep @ join sep (y # ys))
      = occurrences ''%s'' x + occurrences ''%s'' (sep @ join sep (y # ys))"
    using assms by (intro occ_ps_append_r) (simp add: hd_append)
  also have "occurrences ''%s'' (sep @ join sep (y # ys))
      = occurrences ''%s'' sep + occurrences ''%s'' (join sep (y # ys))"
    using assms by (intro occ_ps_append_l) simp
  finally show ?case using 3 assms by simp
qed

lemma sum_occ_clauses_q:
  "sum_list (map (occurrences ''?'') (clauses ''?'' d))
   = length d + sum_list (map (\<lambda>kv. occurrences ''?'' (fst kv)) d)"
  by (induction d) (auto simp: clauses_def occ_q_append)

lemma occ_ps_clause: "occurrences ''%s'' (col @ '' = %s'') = occurrences ''%s'' col + 1"
proof -
  have "occurrences ''%s'' (col @ '' = %s'') = occurrences ''%s'' col + occurrences ''%s'' '' = %s''"
    by (intro occ_ps_append_r) simp
  then show ?thesis by simp
qed

lemma sum_occ_clauses_ps:
  "sum_list (map (occurrences ''%s'') (clauses ''%s'' d))
   = length d + sum_list (map (\<lambda>kv. occurrences ''%s'' (fst kv)) d)"
  by (induction d) (auto simp: clauses_def occ_ps_clause)

lemma occ_create_query_q:
  "occurrences ''?'' (create_query ''?'' t d)
   = length d + occurrences ''?'' t + sum_list (map (\<lambda>kv. occurrences ''?'' (fst kv)) d)"
  by (simp add: create_query_def occ_q_append occ_q_join sum_list_replicate comp_def)

lemma occ_update_query_q:
  "occurrences ''?'' (update_query ''?'' t d cs)
   = length d + length cs + occurrences ''?'' t
     + sum_list (map (\<lambda>kv. occurrences ''?'' (fst kv)) d)
     + sum_list (map (\<lambda>kv. occurrences ''?'' (fst kv)) cs)"
  by (simp add: update_query_def occ_q_append occ_q_join sum_occ_clauses_q)

lemma occ_ps_lit_r:
  "lit \<noteq> [] \<Longrightarrow> hd lit \<noteq> CHR ''s'' \<Longrightarrow>
   occurrences ''%s'' (a @ lit @ b) = occurrences ''%s'' a + occurrences ''%s'' (lit @ b)"
  by (intro occ_ps_append_r) (simp add: hd_append)

lemma occ_create_query_ps:
  "occurrences ''%s'' (create_query ''%s'' t d)
   = length d + occurrences ''%s'' t + sum_list (map (\<lambda>kv. occurrences ''%s'' (fst kv)) d)"
proof -
  let ?o = "occurrences ''%s''"
  let ?J1 = "join '', '' (map fst d)" and ?J2 = "join '', '' (replicate (length d) ''%s'')"
  have "?o (create_query ''%s'' t d) = ?o (t @ '' ('' @ ?J1 @ '') VALUES ('' @ ?J2 @ '')'')"
    by (simp add: create_query_def)
  also have "\<dots> = ?o t + ?o ('' ('' @ ?J1 @ '') VALUES ('' @ ?J2 @ '')'')"
    by (intro occ_ps_lit_r) simp_all
  also have "?o ('' ('' @ ?J1 @ '') VALUES ('' @ ?J2 @ '')'') = ?o (?J1 @ '') VALUES ('' @ ?J2 @ '')'')"
    by simp
  also have "\<dots> = ?o ?J1 + ?o ('') VALUES ('' @ ?J2 @ '')'')"
    by (intro occ_ps_lit_r) simp_all
  also have "?o ('') VALUES ('' @ ?J2 @ '')'') = ?o (?J2 @ '')'')"
    by simp
  also have "\<dots> = ?o ?J2 + ?o '')''"
    by (intro occ_ps_append_r) simp
  finally show ?thesis
    by (simp add: occ_ps_join sum_list_replicate comp_def)
qed

lemma occ_update_query_ps:
  "occurrences ''%s'' (update_query ''%s'' t d cs)
   = length d + length cs + occurrences ''%s'' t
     + sum_list (map (\<lambda>kv. occurrences ''%s'' (fst kv)) d)
     + sum_list (map (\<lambda>kv. occurrences ''%s'' (fst kv)) cs)"
proof -
  let ?o = "occurrences ''%s''"
  let ?J1 = "join '', '' (clauses ''%s'' d)" and ?J2 = "join '' AND '' (clauses ''%s'' cs)"
  have "?o (update_query ''%s'' t d cs) = ?o (t @ '' SET '' @ ?J1 @ '' WHERE '' @ ?J2)"
    by (simp add: update_query_def)
  also have "\<dots> = ?o t + ?o ('' SET '' @ ?J1 @ '' WHERE '' @ ?J2)"
    by (intro occ_ps_lit_r) simp_all
  also have "?o ('' SET '' @ ?J1 @ '' WHERE '' @ ?J2) = ?o (?J1 @ '' WHERE '' @ ?J2)"
    by simp
  also have "\<dots> = ?o ?J1 + ?o ('' WHERE '' @ ?J2)"
    by (intro occ_ps_lit_r) simp_all
  also have "?o ('' WHERE '' @ ?J2) = ?o ?J2"
    by simp
  finally show ?thesis
    by (simp add: occ_ps_join sum_occ_clauses_ps)
qed


lemma delegate_update_log:
  "\<exists>evs. log (connector (snd (delegate_update cr q ps)))
     = log (connector cr) @ Call_execute_update q (Some ps) # evs"
  by (auto simp: delegate_update_def execute_update_def run_statement_def on_db_error_def emit_def
      Let_def split: option.splits sum.splits prod.splits)

lemma occ_create_query:
  "occurrences (get_placeholder dl) (create_query (get_placeholder dl) t d)
   = length d + occurrences (get_placeholder dl) t
     + sum_list (map (\<lambda>kv. occurrences (get_placeholder dl) (fst kv)) d)"
  by (cases dl) (simp_all only: get_placeholder.simps occ_create_query_q occ_create_query_ps)

lemma occ_update_query:
  "occurrences (get_placeholder dl) (update_query (get_placeholder dl) t d cs)
   = length d + length cs + occurrences (get_placeholder dl) t
     + sum_list (map (\<lambda>kv. occurrences (get_placeholder dl) (fst kv)) d)
     + sum_list (map (\<lambda>kv. occurrences (get_placeholder dl) (fst kv)) cs)"
  by (cases dl) (simp_all only: get_placeholder.simps occ_update_query_q occ_update_query_ps)

lemma sum_occ_zero:
  "\<forall>col \<in> fst ` set d. occurrences p col = 0 \<Longrightarrow>
   sum_list (map (\<lambda>kv. occurrences p (fst kv)) d) = 0"
  by (induction d) auto

text \<open>
  C5, amended. \<^verbatim>\<open>get_placeholder\<close> is \<^verbatim>\<open>?\<close> for Firebird and \<^verbatim>\<open>%s\<close> for MySQL
  and PostgreSQL. When the table name and the column names contain no occurrence of the
  placeholder, the statement that \<^verbatim>\<open>CRUD.create\<close> (non-empty fields) and
  \<^verbatim>\<open>CRUD.update\<close> (non-empty fields and conditions) pass to \<^verbatim>\<open>execute_update\<close>
  contains exactly as many placeholders as the parameter tuple has entries.
\<close>

theorem crud_placeholder_count:
  assumes t: "occurrences (get_placeholder (kind c)) table_name = 0"
    and d: "\<forall>col \<in> fst ` set d. occurrences (get_placeholder (kind c)) col = 0"
    and cs: "\<forall>col \<in> fst ` set conditions. occurrences (get_placeholder (kind c)) col = 0"
    and ne: "d \<noteq> []" "conditions \<noteq> []"
  shows "get_placeholder Firebird = ''?'' \<and> get_placeholder MySQL = ''%s''
    \<and> get_placeholder PostgreSQL = ''%s''
    \<and> (\<exists>q ps evs. log (connector (snd (create (crud_init c) table_name d)))
            = log c @ Call_execute_update q (Some ps) # evs
          \<and> occurrences (get_placeholder (kind c)) q = length ps)
    \<and> (\<exists>q ps evs. log (connector (snd (update (crud_init c) table_name d conditions)))
            = log c @ Call_execute_update q (Some ps) # evs
          \<and> occurrences (get_placeholder (kind c)) q = length ps)"
proof -
  let ?ph = "get_placeholder (kind c)"
  let ?cr = "crud_init c"
  have cr: "placeholder ?cr = ?ph" "connector ?cr = c"
    by (simp_all add: crud_init_def)
  obtain evs1 where 1: "log (connector (snd (delegate_update ?cr (create_query ?ph table_name d) (map snd d))))
      = log c @ Call_execute_update (create_query ?ph table_name d) (Some (map snd d)) # evs1"
    using delegate_update_log [of ?cr] cr by auto
  have n1: "occurrences ?ph (create_query ?ph table_name d) = length (map snd d)"
    using t d by (simp add: occ_create_query sum_occ_zero)
  obtain evs2 where 2: "log (connector (snd (delegate_update ?cr (update_query ?ph table_name d conditions)
        (map snd d @ map snd conditions))))
      = log c @ Call_execute_update (update_query ?ph table_name d conditions)
          (Some (map snd d @ map snd conditions)) # evs2"
    using delegate_update_log [of ?cr] cr by auto
  have n2: "occurrences ?ph (update_query ?ph table_name d conditions)
      = length (map snd d @ map snd conditions)"
    using t d cs by (simp add: occ_update_query sum_occ_zero)
  have e1: "create ?cr table_name d
      = delegate_update ?cr (create_query ?ph table_name d) (map snd d)"
    using ne cr by (simp add: create_def)
  have e2: "update ?cr table_name d conditions
      = delegate_update ?cr (update_query ?ph table_name d conditions)
          (map snd d @ map snd conditions)"
    using ne cr by (simp add: update_def)
  have "\<exists>q ps evs. log (connector (snd (create ?cr table_name d)))
            = log c @ Call_execute_update q (Some ps) # evs
          \<and> occurrences ?ph q = length ps"
    unfolding e1 using 1 n1 by blast
  moreover have "\<exists>q ps evs. log (connector (snd (update ?cr table_name d conditions)))
            = log c @ Call_execute_update q (Some ps) # evs
          \<and> occurrences ?ph q = length ps"
    unfolding e2 using 2 n2 by blast
  ultimately show ?thesis by simp
qed

theorem crud_placeholder_count_witness:
  "occurrences (get_placeholder (kind (demo_connector MySQL))) ''users'' = 0
   \<and> occurrences (get_placeholder (kind (demo_connector MySQL))) ''name'' = 0
   \<and> occurrences (get_placeholder (kind (demo_connector MySQL))) ''age'' = 0
   \<and> occurrences (get_placeholder (kind (demo_connector MySQL))) ''id'' = 0
   \<and> (\<exists>q ps evs. log (connector (snd (update (crud_init (demo_connector MySQL)) ''users''
              [(''name'', PStr ''Ana''), (''age'', PInt 30)] [(''id'', PInt 7)])))
            = log (demo_connector MySQL) @ Call_execute_update q (Some ps) # evs
          \<and> occurrences (get_placeholder (kind (demo_connector MySQL))) q = length ps)"
proof -
  have h: "occurrences (get_placeholder (kind (demo_connector MySQL))) ''users'' = 0"
    "\<forall>col \<in> fst ` set [(''name'', PStr ''Ana''), (''age'', PInt 30)].
         occurrences (get_placeholder (kind (demo_connector MySQL))) col = 0"
    "\<forall>col \<in> fst ` set [(''id'', PInt 7)].
         occurrences (get_placeholder (kind (demo_connector MySQL))) col = 0"
    "[(''name'', PStr ''Ana''), (''age'', PInt 30)] \<noteq> []" "[(''id'', PInt 7)] \<noteq> []"
    by (simp_all add: demo_connector_def)
  from crud_placeholder_count [OF h] h show ?thesis by simp
qed

text \<open>
  C5, as stated, fails for a column name that contains the placeholder: the names are copied
  into the statement as they are.
\<close>

theorem crud_placeholder_count_counterexample:
  "log (connector (snd (create (crud_init (demo_connector Firebird)) ''t'' [(''a?'', PInt 1)])))
     = [Call_execute_update ''INSERT INTO t (a?) VALUES (?)'' (Some [PInt 1]),
        Drv_cursor, Drv_execute ''INSERT INTO t (a?) VALUES (?)'' [PInt 1]]
   \<and> occurrences (get_placeholder Firebird) ''INSERT INTO t (a?) VALUES (?)'' = 2
   \<and> length [PInt 1] = 1"
  by (simp add: create_def crud_init_def demo_connector_def demo_connection_def delegate_update_def
      execute_update_def run_statement_def emit_def create_query_def)


section \<open>Connectors: disconnected state and scoped use\<close>

text \<open>
  C9. On a connector without a connection, \<^verbatim>\<open>execute_query\<close>,
  \<^verbatim>\<open>execute_update\<close>, \<^verbatim>\<open>commit_transaction\<close> and
  \<^verbatim>\<open>rollback_transaction\<close> raise \<^verbatim>\<open>ConnectionError\<close> at once: the only thing
  recorded is the call itself, no cursor was asked for and the driver was not reached.
\<close>

theorem disconnected_operations_raise:
  assumes "conn c = None"
  shows "(\<exists>msg. execute_query c q ps
            = (Inl (Raise ConnectionError msg), emit [Call_execute_query q ps] c))
       \<and> (\<exists>msg. execute_update c q ps
            = (Inl (Raise ConnectionError msg), emit [Call_execute_update q ps] c))
       \<and> (\<exists>msg. commit_transaction c
            = (Inl (Raise ConnectionError msg), emit [Call_commit_transaction] c))
       \<and> (\<exists>msg. rollback_transaction c
            = (Inl (Raise ConnectionError msg), emit [Call_rollback_transaction] c))
       \<and> filter is_driver_event (log (snd (execute_query c q ps))) = filter is_driver_event (log c)
       \<and> filter is_driver_event (log (snd (execute_update c q ps))) = filter is_driver_event (log c)
       \<and> filter is_driver_event (log (snd (commit_transaction c))) = filter is_driver_event (log c)
       \<and> filter is_driver_event (log (snd (rollback_transaction c))) = filter is_driver_event (log c)"
  using assms
  by (simp add: execute_query_def execute_update_def commit_transaction_def
      rollback_transaction_def emit_def)

theorem disconnected_operations_raise_witness:
  "conn disconnected_connector = None
   \<and> (\<exists>msg. execute_update disconnected_connector ''DELETE FROM t WHERE id = ?'' (Some [PInt 1])
          = (Inl (Raise ConnectionError msg),
             emit [Call_execute_update ''DELETE FROM t WHERE id = ?'' (Some [PInt 1])]
               disconnected_connector))
   \<and> filter is_driver_event (log (snd (commit_transaction disconnected_connector)))
       = filter is_driver_event (log disconnected_connector)"
proof -
  have h: "conn disconnected_connector = None"
    by (simp add: disconnected_connector_def)
  from disconnected_operations_raise [OF h, of "''DELETE FROM t WHERE id = ?''" "Some [PInt 1]"] h
  show ?thesis by blast
qed

lemma exit_scope_log:
  "conn c = Some cn \<Longrightarrow>
   log (exit_scope c exc)
     = log c
       @ (if exc then (if has_rollback cn then [Drv_rollback] else [])
          else (if has_commit cn then [Drv_commit] else []))
       @ Call_disconnect # (if kind c \<noteq> Firebird \<and> already_closed cn then [] else [Drv_close])"
  by (auto simp: exit_scope_def disconnect_def emit_def Let_def split: option.splits)

text \<open>
  C4. Leaving the scope of a connector that holds a connection: without an exception the
  commit is called when the connection has one; with an exception the rollback is called when
  the connection has one, and no commit is; \<^verbatim>\<open>disconnect\<close> is called exactly once in
  both cases, after them.
\<close>

theorem exit_scope_policy:
  assumes "conn c = Some cn"
  shows "\<exists>evs. log (exit_scope c exc) = log c @ evs
      \<and> (\<not> exc \<and> has_commit cn \<longrightarrow> Drv_commit \<in> set evs)
      \<and> (exc \<and> has_rollback cn \<longrightarrow> Drv_rollback \<in> set evs)
      \<and> (exc \<longrightarrow> Drv_commit \<notin> set evs)
      \<and> (\<not> exc \<longrightarrow> Drv_rollback \<notin> set evs)
      \<and> count_list evs Call_disconnect = 1
      \<and> (\<exists>before after. evs = before @ Call_disconnect # after
            \<and> Drv_commit \<notin> set after \<and> Drv_rollback \<notin> set after)"
proof -
  let ?before = "if exc then (if has_rollback cn then [Drv_rollback] else [])
          else (if has_commit cn then [Drv_commit] else [])"
  let ?after = "if kind c \<noteq> Firebird \<and> already_closed cn then [] else [Drv_close]"
  let ?evs = "?before @ Call_disconnect # ?after"
  have l: "log (exit_scope c exc) = log c @ ?evs"
    using exit_scope_log [OF assms] by simp
  have o: "\<exists>before after. ?evs = before @ Call_disconnect # after
            \<and> Drv_commit \<notin> set after \<and> Drv_rollback \<notin> set after"
    by (intro exI [of _ ?before] exI [of _ ?after]) simp
  have p: "(\<not> exc \<and> has_commit cn \<longrightarrow> Drv_commit \<in> set ?evs)
      \<and> (exc \<and> has_rollback cn \<longrightarrow> Drv_rollback \<in> set ?evs)
      \<and> (exc \<longrightarrow> Drv_commit \<notin> set ?evs)
      \<and> (\<not> exc \<longrightarrow> Drv_rollback \<notin> set ?evs)
      \<and> count_list ?evs Call_disconnect = 1"
    by simp
  from l o p show ?thesis by blast
qed

theorem exit_scope_policy_witness:
  "conn (demo_connector PostgreSQL) = Some demo_connection
   \<and> has_commit demo_connection \<and> has_rollback demo_connection
   \<and> (\<exists>evs. log (exit_scope (demo_connector PostgreSQL) True) = log (demo_connector PostgreSQL) @ evs
      \<and> Drv_rollback \<in> set evs \<and> Drv_commit \<notin> set evs \<and> count_list evs Call_disconnect = 1)
   \<and> (\<exists>evs. log (exit_scope (demo_connector PostgreSQL) False) = log (demo_connector PostgreSQL) @ evs
      \<and> Drv_commit \<in> set evs \<and> Drv_rollback \<notin> set evs \<and> count_list evs Call_disconnect = 1)"
proof -
  have h: "conn (demo_connector PostgreSQL) = Some demo_connection"
    by (simp add: demo_connector_def)
  have c: "has_commit demo_connection" "has_rollback demo_connection"
    by (simp_all add: demo_connection_def)
  from exit_scope_policy [OF h, of True] c
  have 1: "\<exists>evs. log (exit_scope (demo_connector PostgreSQL) True) = log (demo_connector PostgreSQL) @ evs
      \<and> Drv_rollback \<in> set evs \<and> Drv_commit \<notin> set evs \<and> count_list evs Call_disconnect = 1"
    by blast
  from exit_scope_policy [OF h, of False] c
  have 2: "\<exists>evs. log (exit_scope (demo_connector PostgreSQL) False) = log (demo_connector PostgreSQL) @ evs
      \<and> Drv_commit \<in> set evs \<and> Drv_rollback \<notin> set evs \<and> count_list evs Call_disconnect = 1"
    by blast
  from 1 2 h c show ?thesis by blast
qed

section \<open>The factories: how lookup fails\<close>

text \<open>
  C3, amended. The two factories fail differently. In \<^verbatim>\<open>connector_manager\<close> an identifier
  that is not registered fails with a \<^verbatim>\<open>ValueError\<close> whose message lists the registered
  identifiers, and a dialect whose driver did not load is not registered, so it fails the same
  way. In \<^verbatim>\<open>connectorDB\<close> an identifier outside the connector map fails with a
  \<^verbatim>\<open>ConfigError\<close> whose message holds the requested identifier only, and a known
  dialect whose driver flag is off fails with an \<^verbatim>\<open>ImportError\<close>.
\<close>

theorem factory_failures:
  "(dict_get connectors (lower dbt) = None \<longrightarrow>
      (\<exists>msg. manager_get_connector connectors construct dbt db_config = Inl (Raise ValueError msg)
         \<and> Vals (map fst connectors) \<in> set msg))
   \<and> (\<not> fdb_available drv \<longrightarrow> dict_get (initial_connectors drv) ''firebird'' = None)
   \<and> (\<not> mysql_connector_available drv \<longrightarrow> dict_get (initial_connectors drv) ''mysql'' = None)
   \<and> (\<not> psycopg2_available drv \<longrightarrow> dict_get (initial_connectors drv) ''postgres'' = None)
   \<and> (dict_get cfg ''db_type'' = Some (PStr s) \<and> dict_get CONNECTOR_MAP (lower s) = None \<longrightarrow>
        get_connector drv cfg = Inl (Raise ConfigError [Txt ''Tipo de banco de dados '',
          Val (lower s), Txt '' nao suportado ou configurado incorretamente.'']))
   \<and> (dict_get cfg ''db_type'' = Some (PStr s)
        \<and> (lower s = ''firebird'' \<and> \<not> fdb_available drv
           \<or> lower s = ''mysql'' \<and> \<not> mysql_connector_available drv
           \<or> lower s = ''postgresql'' \<and> \<not> psycopg2_available drv) \<longrightarrow>
        (\<exists>msg. get_connector drv cfg = Inl (Raise ImportError msg)))"
proof (intro conjI impI)
  assume "dict_get connectors (lower dbt) = None"
  then show "\<exists>msg. manager_get_connector connectors construct dbt db_config = Inl (Raise ValueError msg)
         \<and> Vals (map fst connectors) \<in> set msg"
    by (simp add: manager_get_connector_def)
next
  assume "\<not> fdb_available drv"
  then show "dict_get (initial_connectors drv) ''firebird'' = None"
    by (simp add: initial_connectors_def dict_get_def)
next
  assume "\<not> mysql_connector_available drv"
  then show "dict_get (initial_connectors drv) ''mysql'' = None"
    by (simp add: initial_connectors_def dict_get_def)
next
  assume "\<not> psycopg2_available drv"
  then show "dict_get (initial_connectors drv) ''postgres'' = None"
    by (simp add: initial_connectors_def dict_get_def)
next
  assume "dict_get cfg ''db_type'' = Some (PStr s) \<and> dict_get CONNECTOR_MAP (lower s) = None"
  then show "get_connector drv cfg = Inl (Raise ConfigError [Txt ''Tipo de banco de dados '',
          Val (lower s), Txt '' nao suportado ou configurado incorretamente.''])"
    by (simp add: get_connector_def)
next
  assume a: "dict_get cfg ''db_type'' = Some (PStr s)
        \<and> (lower s = ''firebird'' \<and> \<not> fdb_available drv
           \<or> lower s = ''mysql'' \<and> \<not> mysql_connector_available drv
           \<or> lower s = ''postgresql'' \<and> \<not> psycopg2_available drv)"
  then have "dict_get CONNECTOR_MAP (lower s) \<noteq> None"
    by (auto simp: CONNECTOR_MAP_def dict_get_def)
  with a show "\<exists>msg. get_connector drv cfg = Inl (Raise ImportError msg)"
    by (auto simp: get_connector_def Let_def)
qed

theorem factory_failures_witness:
  "dict_get (initial_connectors no_firebird_driver) (lower ''Oracle'') = None
   \<and> (\<exists>msg. manager_get_connector (initial_connectors no_firebird_driver)
          (\<lambda>k cfg. Inr k) ''Oracle'' () = Inl (Raise ValueError msg)
        \<and> Vals (map fst (initial_connectors no_firebird_driver)) \<in> set msg)
   \<and> \<not> fdb_available no_drivers \<and> \<not> mysql_connector_available no_drivers
   \<and> \<not> psycopg2_available no_drivers
   \<and> dict_get (initial_connectors no_drivers) ''firebird'' = None
   \<and> dict_get (initial_connectors no_drivers) ''mysql'' = None
   \<and> dict_get (initial_connectors no_drivers) ''postgres'' = None
   \<and> dict_get [(''db_type'', PStr ''Oracle'')] ''db_type'' = Some (PStr ''Oracle'')
   \<and> dict_get CONNECTOR_MAP (lower ''Oracle'') = None
   \<and> get_connector all_drivers [(''db_type'', PStr ''Oracle'')]
       = Inl (Raise ConfigError [Txt ''Tipo de banco de dados '', Val (lower ''Oracle''),
           Txt '' nao suportado ou configurado incorretamente.''])
   \<and> dict_get [(''db_type'', PStr ''Firebird'')] ''db_type'' = Some (PStr ''Firebird'')
   \<and> lower ''Firebird'' = ''firebird''
   \<and> (\<exists>msg. get_connector no_drivers [(''db_type'', PStr ''Firebird'')]
          = Inl (Raise ImportError msg))"
proof -
  have h1: "dict_get (initial_connectors no_firebird_driver) (lower ''Oracle'') = None"
    by (simp add: initial_connectors_def no_firebird_driver_def dict_get_def lower_def lower_char_def)
  have h2: "\<not> fdb_available no_drivers" "\<not> mysql_connector_available no_drivers"
    "\<not> psycopg2_available no_drivers"
    by (simp_all add: no_drivers_def)
  have h3: "dict_get [(''db_type'', PStr ''Oracle'')] ''db_type'' = Some (PStr ''Oracle'')"
    "dict_get CONNECTOR_MAP (lower ''Oracle'') = None"
    by (simp_all add: dict_get_def CONNECTOR_MAP_def lower_def lower_char_def)
  have h4: "dict_get [(''db_type'', PStr ''Firebird'')] ''db_type'' = Some (PStr ''Firebird'')"
    "lower ''Firebird'' = ''firebird''"
    by (simp_all add: dict_get_def lower_def lower_char_def)
  have a: "\<exists>msg. manager_get_connector (initial_connectors no_firebird_driver)
          (\<lambda>k cfg. Inr k) ''Oracle'' () = Inl (Raise ValueError msg)
        \<and> Vals (map fst (initial_connectors no_firebird_driver)) \<in> set msg"
    using factory_failures [of "initial_connectors no_firebird_driver" "''Oracle''"
      "\<lambda>k cfg. Inr k" "()"] h1 by blast
  have b: "dict_get (initial_connectors no_drivers) ''firebird'' = None"
    "dict_get (initial_connectors no_drivers) ''mysql'' = None"
    "dict_get (initial_connectors no_drivers) ''postgres'' = None"
    using factory_failures [of "initial_connectors no_firebird_driver" "''Oracle''"
      "\<lambda>k cfg. Inr k" "()" no_drivers "[]" "[]"] h2 by blast+
  have c: "get_connector all_drivers [(''db_type'', PStr ''Oracle'')]
       = Inl (Raise ConfigError [Txt ''Tipo de banco de dados '', Val (lower ''Oracle''),
           Txt '' nao suportado ou configurado incorretamente.''])"
    using factory_failures [of "initial_connectors no_firebird_driver" "''Oracle''"
      "\<lambda>k cfg. Inr k" "()" all_drivers
      "[(''db_type'', PStr ''Oracle'')]" "''Oracle''"] h3 by blast
  have d: "\<exists>msg. get_connector no_drivers [(''db_type'', PStr ''Firebird'')]
          = Inl (Raise ImportError msg)"
    using factory_failures [of "initial_connectors no_firebird_driver" "''Oracle''"
      "\<lambda>k cfg. Inr k" "()" no_drivers
      "[(''db_type'', PStr ''Firebird'')]" "''Firebird''"] h2 h4 by blast
  from a b c d h1 h2 h3 h4 show ?thesis by blast
qed

text \<open>
  C3, as stated, holds of neither factory: the \<^verbatim>\<open>ConfigError\<close> of \<^verbatim>\<open>connectorDB\<close>
  lists no known identifier, and in \<^verbatim>\<open>connector_manager\<close> a dialect without its driver
  fails with the error of an unknown identifier.
\<close>

theorem factory_failures_counterexample:
  "get_connector all_drivers [(''db_type'', PStr ''oracle'')]
     = Inl (Raise ConfigError [Txt ''Tipo de banco de dados '', Val ''oracle'',
         Txt '' nao suportado ou configurado incorretamente.''])
   \<and> manager_get_connector (initial_connectors no_firebird_driver) (\<lambda>k cfg. Inr k) ''firebird'' ()
     = Inl (Raise ValueError [Txt ''Tipo de banco de dados '', Val ''firebird'',
         Txt '' nao suportado ou conector nao disponivel. Conectores disponiveis: '',
         Vals [''mysql'', ''postgres'']])"
  by (simp add: get_connector_def manager_get_connector_def initial_connectors_def
      no_firebird_driver_def all_drivers_def dict_get_def CONNECTOR_MAP_def lower_def lower_char_def)

section \<open>Introspection: foreign keys and numeric scale\<close>

lemma andthen_Inr_iff: "andthen r f = Inr y \<longleftrightarrow> (\<exists>x. r = Inr x \<and> f x = Inr y)"
  by (cases r) (simp_all add: andthen_def)

lemma collect_Inr:
  "collect f rs = Inr xs \<Longrightarrow> map f rs = map Inr xs"
  by (induction rs arbitrary: xs) (auto simp: andthen_Inr_iff)

lemma dict_set_absent: "k \<notin> fst ` set d \<Longrightarrow> dict_set d k v = d @ [(k, v)]"
  by (induction d) auto

lemma map_of_None_iff: "map_of d k = None \<longleftrightarrow> k \<notin> fst ` set d"
  by (simp add: map_of_eq_None_iff)

lemma firebird_fk_loop_props:
  assumes "firebird_fk_loop acc rows = Inr d" "distinct (map fst acc)"
    "\<forall>(k, fk) \<in> set acc. fk_name fk = k"
  shows "\<exists>recs. map firebird_fk_row rows = map Inr recs
      \<and> distinct (map fst d) \<and> (\<forall>(k, fk) \<in> set d. fk_name fk = k)
      \<and> fst ` set d = fst ` set acc \<union> fk_name ` set recs
      \<and> (\<forall>k. map_of d k = (case map_of acc k of Some x \<Rightarrow> Some x
                                | None \<Rightarrow> find (\<lambda>x. fk_name x = k) recs))"
  using assms
proof (induction rows arbitrary: acc)
  case Nil
  then show ?case by (auto split: option.splits)
next
  case (Cons r rs)
  from Cons.prems(1) obtain fk where fk: "firebird_fk_row r = Inr fk"
    and loop: "firebird_fk_loop (if dict_get acc (fk_name fk) = None
          then dict_set acc (fk_name fk) fk else acc) rs = Inr d"
    by (auto simp: andthen_Inr_iff)
  let ?acc = "if dict_get acc (fk_name fk) = None then dict_set acc (fk_name fk) fk else acc"
  have acc': "?acc = (if fk_name fk \<in> fst ` set acc then acc else acc @ [(fk_name fk, fk)])"
    by (simp add: dict_get_def map_of_None_iff dict_set_absent)
  have d': "distinct (map fst ?acc)" and n': "\<forall>(k, fk) \<in> set ?acc. fk_name fk = k"
    using Cons.prems(2,3) unfolding acc' by auto
  from Cons.IH [OF loop d' n'] obtain recs where recs: "map firebird_fk_row rs = map Inr recs"
    "distinct (map fst d)" "\<forall>(k, fk) \<in> set d. fk_name fk = k"
    "fst ` set d = fst ` set ?acc \<union> fk_name ` set recs"
    "\<forall>k. map_of d k = (case map_of ?acc k of Some x \<Rightarrow> Some x
                                | None \<Rightarrow> find (\<lambda>x. fk_name x = k) recs)"
    by blast
  have s: "fst ` set d = fst ` set acc \<union> fk_name ` set (fk # recs)"
    using recs(4) unfolding acc' by auto
  have m: "map_of d k = (case map_of acc k of Some x \<Rightarrow> Some x
                                | None \<Rightarrow> find (\<lambda>x. fk_name x = k) (fk # recs))" for k
  proof (cases "fk_name fk \<in> fst ` set acc")
    case True
    then have "map_of acc (fk_name fk) \<noteq> None" by (simp add: map_of_None_iff)
    with True recs(5) show ?thesis unfolding acc' by (auto split: option.splits)
  next
    case False
    then have "map_of acc (fk_name fk) = None" by (simp add: map_of_None_iff)
    with False recs(5) show ?thesis unfolding acc'
      by (auto simp: map_of_append map_add_def split: option.splits)
  qed
  have "map firebird_fk_row (r # rs) = map Inr (fk # recs)"
    using fk recs(1) by simp
  with recs(2,3) s m show ?case by blast
qed

lemma stripped_or_total: "py_str v = Inr t \<Longrightarrow> \<exists>y. stripped_or v other f = Inr y"
  by (simp add: stripped_or_def andthen_def)

lemma andthen_Inr: "andthen (Inr x) f = f x"
  by (simp add: andthen_def)

lemma tuple_item_TupleRow: "i < length xs \<Longrightarrow> tuple_item (TupleRow xs) i = Inr (xs ! i)"
  by (simp add: tuple_item_def)

lemma firebird_fk_row_total:
  assumes "6 \<le> length xs" "\<forall>v \<in> set xs. \<exists>t. py_str v = Inr t"
  shows "\<exists>fk. firebird_fk_row (TupleRow xs) = Inr fk"
proof -
  have cell: "\<exists>t. py_str (xs ! i) = Inr t" if "i < 6" for i
    using assms that by (simp add: nth_mem)
  obtain t1 t2 t3 where t: "py_str (xs ! 1) = Inr t1" "py_str (xs ! 2) = Inr t2"
    "py_str (xs ! 3) = Inr t3"
    using cell [of 1] cell [of 2] cell [of 3] by auto
  obtain t0 t4 t5 where t': "py_str (xs ! 0) = Inr t0" "py_str (xs ! 4) = Inr t4"
    "py_str (xs ! 5) = Inr t5"
    using cell [of 0] cell [of 4] cell [of 5] by auto
  obtain y0 where y0: "stripped_or (xs ! 0) ''UNNAMED_FK'' id = Inr y0"
    using stripped_or_total [where other = "''UNNAMED_FK''" and f = id, OF t'(1)] by blast
  obtain y4 where y4: "stripped_or (xs ! 4) [] id = Inr y4"
    using stripped_or_total [where other = "[]" and f = id, OF t'(2)] by blast
  obtain y5 where y5: "stripped_or (xs ! 5) [] id = Inr y5"
    using stripped_or_total [where other = "[]" and f = id, OF t'(3)] by blast
  note y = y0 y4 y5
  have i: "0 < length xs" "1 < length xs" "2 < length xs" "3 < length xs" "4 < length xs"
    "5 < length xs"
    using assms(1) by auto
  show ?thesis
    unfolding firebird_fk_row_def
    by (simp only: tuple_item_TupleRow [OF i(1)] tuple_item_TupleRow [OF i(2)]
        tuple_item_TupleRow [OF i(3)] tuple_item_TupleRow [OF i(4)]
        tuple_item_TupleRow [OF i(5)] tuple_item_TupleRow [OF i(6)] andthen_Inr t y) blast
qed

lemma firebird_fk_loop_total:
  "\<forall>r \<in> set rows. \<exists>xs. r = TupleRow xs \<and> 6 \<le> length xs
      \<and> (\<forall>v \<in> set xs. \<exists>t. py_str v = Inr t) \<Longrightarrow>
   \<exists>d. firebird_fk_loop acc rows = Inr d"
proof (induction rows arbitrary: acc)
  case Nil
  show ?case by simp
next
  case (Cons r rs)
  then obtain xs where "r = TupleRow xs" "6 \<le> length xs" "\<forall>v \<in> set xs. \<exists>t. py_str v = Inr t"
    by auto
  then obtain fk where "firebird_fk_row r = Inr fk"
    using firebird_fk_row_total by blast
  with Cons show ?case by (simp add: andthen_def)
qed

lemma collect_total:
  "\<forall>r \<in> set rs. \<exists>x. f r = Inr x \<Longrightarrow> \<exists>xs. collect f rs = Inr xs"
  by (induction rs) (auto simp: andthen_def)

lemma dict_item_Some: "map_of d k = Some v \<Longrightarrow> row_item what (DictRow d) k = Inr v"
  by (simp add: row_item_def dict_item_def)

lemma mysql_fk_row_total:
  assumes "\<forall>k \<in> set [''CONSTRAINT_NAME'', ''COLUMN_NAME'', ''REFERENCED_TABLE_NAME'',
            ''REFERENCED_COLUMN_NAME'', ''UPDATE_RULE'', ''DELETE_RULE'']. \<exists>v t. map_of d k = Some v \<and> py_str v = Inr t"
  shows "\<exists>fk. mysql_fk_row (DictRow d) = Inr fk"
proof -
  have key: "\<exists>v t. map_of d k = Some v \<and> py_str v = Inr t"
    if "k \<in> set [''CONSTRAINT_NAME'', ''COLUMN_NAME'', ''REFERENCED_TABLE_NAME'',
            ''REFERENCED_COLUMN_NAME'', ''UPDATE_RULE'', ''DELETE_RULE'']" for k
    using assms that by blast
  obtain v1 t1 where 1: "map_of d ''CONSTRAINT_NAME'' = Some v1" "py_str v1 = Inr t1"
    using key [of "''CONSTRAINT_NAME''"] by auto
  obtain v2 t2 where 2: "map_of d ''COLUMN_NAME'' = Some v2" "py_str v2 = Inr t2"
    using key [of "''COLUMN_NAME''"] by auto
  obtain v3 t3 where 3: "map_of d ''REFERENCED_TABLE_NAME'' = Some v3" "py_str v3 = Inr t3"
    using key [of "''REFERENCED_TABLE_NAME''"] by auto
  obtain v4 t4 where 4: "map_of d ''REFERENCED_COLUMN_NAME'' = Some v4" "py_str v4 = Inr t4"
    using key [of "''REFERENCED_COLUMN_NAME''"] by auto
  obtain v5 t5 where 5: "map_of d ''UPDATE_RULE'' = Some v5" "py_str v5 = Inr t5"
    using key [of "''UPDATE_RULE''"] by auto
  obtain v6 t6 where 6: "map_of d ''DELETE_RULE'' = Some v6" "py_str v6 = Inr t6"
    using key [of "''DELETE_RULE''"] by auto
  show ?thesis
    unfolding mysql_fk_row_def Let_def
    by (simp only: dict_item_Some [OF 1(1)] dict_item_Some [OF 2(1)] dict_item_Some [OF 3(1)]
        dict_item_Some [OF 4(1)] dict_item_Some [OF 5(1)] dict_item_Some [OF 6(1)]
        andthen_Inr 1(2) 2(2) 3(2) 4(2) 5(2) 6(2)) blast
qed

text \<open>
  PostgreSQL: on a row as the connector's own \<^verbatim>\<open>DictCursor\<close> returns it, which is not a
  \<^verbatim>\<open>dict\<close>, \<^verbatim>\<open>_get_foreign_keys\<close> raises \<^verbatim>\<open>TypeError\<close> at the first row and
  returns no record.
\<close>

lemma postgresql_driver_rows_raise:
  "postgresql_get_foreign_keys (ListRow cols # rs)
     = Inl (Raise TypeError [Txt ''Os resultados da consulta de chaves estrangeiras PostgreSQL nao foram dicionarios.''])"
  by (simp add: postgresql_get_foreign_keys_def postgresql_fk_row_def row_item_def andthen_def)

text \<open>
  C7, amended. Firebird: when the rows are tuples of six cells that \<^verbatim>\<open>str\<close> converts,
  the loop returns, and what it returns holds exactly one record per distinct constraint name,
  the record of the first row with that name, so a foreign key over several columns keeps its
  first segment only. MySQL: when the rows are \<^verbatim>\<open>dict\<close>s with the six columns of the
  query the loop returns, and every row of the result becomes a record of its own, in order,
  so such a foreign key yields one record per row. Nothing is stated of PostgreSQL.
\<close>

theorem foreign_keys_per_dialect:
  "((\<forall>r \<in> set rows. \<exists>xs. r = TupleRow xs \<and> 6 \<le> length xs
        \<and> (\<forall>v \<in> set xs. \<exists>t. py_str v = Inr t)) \<longrightarrow>
       (\<exists>fks. firebird_foreign_keys rows = Inr fks))
   \<and> (firebird_foreign_keys rows = Inr fks \<longrightarrow>
       (\<exists>recs. map firebird_fk_row rows = map Inr recs
          \<and> distinct (map fk_name fks)
          \<and> set (map fk_name fks) = set (map fk_name recs)
          \<and> (\<forall>fk \<in> set fks. find (\<lambda>x. fk_name x = fk_name fk) recs = Some fk)))
   \<and> ((\<forall>r \<in> set rows. \<exists>d. r = DictRow d
        \<and> (\<forall>k \<in> set [''CONSTRAINT_NAME'', ''COLUMN_NAME'', ''REFERENCED_TABLE_NAME'',
            ''REFERENCED_COLUMN_NAME'', ''UPDATE_RULE'', ''DELETE_RULE''].
              \<exists>v t. map_of d k = Some v \<and> py_str v = Inr t)) \<longrightarrow>
       (\<exists>fks. mysql_foreign_keys rows = Inr fks))
   \<and> (mysql_foreign_keys rows = Inr fks \<longrightarrow> map mysql_fk_row rows = map Inr fks)"
proof (intro conjI impI)
  assume "\<forall>r \<in> set rows. \<exists>xs. r = TupleRow xs \<and> 6 \<le> length xs
        \<and> (\<forall>v \<in> set xs. \<exists>t. py_str v = Inr t)"
  from firebird_fk_loop_total [OF this, of "[]"]
  obtain d where "firebird_fk_loop [] rows = Inr d" by blast
  then show "\<exists>fks. firebird_foreign_keys rows = Inr fks"
    by (simp add: firebird_foreign_keys_def andthen_Inr)
next
  assume "firebird_foreign_keys rows = Inr fks"
  then obtain d where d: "firebird_fk_loop [] rows = Inr d" and fks: "fks = map snd d"
    by (auto simp: firebird_foreign_keys_def andthen_Inr_iff)
  from firebird_fk_loop_props [OF d] obtain recs where recs:
    "map firebird_fk_row rows = map Inr recs" "distinct (map fst d)"
    "\<forall>(k, fk) \<in> set d. fk_name fk = k" "fst ` set d = fk_name ` set recs"
    "\<forall>k. map_of d k = find (\<lambda>x. fk_name x = k) recs"
    by auto
  have names: "map fk_name fks = map fst d"
    unfolding fks using recs(3) by (induction d) auto
  have "find (\<lambda>x. fk_name x = fk_name fk) recs = Some fk" if "fk \<in> set fks" for fk
  proof -
    from that obtain k where k: "(k, fk) \<in> set d" unfolding fks by auto
    with recs(3) have "fk_name fk = k" by auto
    moreover from k recs(2) have "map_of d k = Some fk" by simp
    ultimately show ?thesis using recs(5) by simp
  qed
  with recs(1,2,4) names
  show "\<exists>recs. map firebird_fk_row rows = map Inr recs
          \<and> distinct (map fk_name fks)
          \<and> set (map fk_name fks) = set (map fk_name recs)
          \<and> (\<forall>fk \<in> set fks. find (\<lambda>x. fk_name x = fk_name fk) recs = Some fk)"
    by (intro exI [of _ recs]) auto
next
  assume a: "\<forall>r \<in> set rows. \<exists>d. r = DictRow d
        \<and> (\<forall>k \<in> set [''CONSTRAINT_NAME'', ''COLUMN_NAME'', ''REFERENCED_TABLE_NAME'',
            ''REFERENCED_COLUMN_NAME'', ''UPDATE_RULE'', ''DELETE_RULE''].
              \<exists>v t. map_of d k = Some v \<and> py_str v = Inr t)"
  have "\<forall>r \<in> set rows. \<exists>x. mysql_fk_row r = Inr x"
  proof
    fix r
    assume "r \<in> set rows"
    with a obtain d where "r = DictRow d"
      and "\<forall>k \<in> set [''CONSTRAINT_NAME'', ''COLUMN_NAME'', ''REFERENCED_TABLE_NAME'',
            ''REFERENCED_COLUMN_NAME'', ''UPDATE_RULE'', ''DELETE_RULE''].
              \<exists>v t. map_of d k = Some v \<and> py_str v = Inr t"
      by blast
    then show "\<exists>x. mysql_fk_row r = Inr x"
      using mysql_fk_row_total [of d] by simp
  qed
  from collect_total [OF this] show "\<exists>fks. mysql_foreign_keys rows = Inr fks"
    by (simp add: mysql_foreign_keys_def)
next
  assume "mysql_foreign_keys rows = Inr fks"
  then show "map mysql_fk_row rows = map Inr fks"
    by (simp add: mysql_foreign_keys_def collect_Inr)
qed

lemma firebird_fk_tuple_rows:
  "firebird_foreign_keys fk_tuple_rows
     = Inr [\<lparr>fk_name = ''FK_ITEM_PEDIDO'', column_name = ''PEDIDO_ID'',
             referenced_table_name = ''PEDIDO'', referenced_column_name = ''ID'',
             on_update = Some ''CASCADE'', on_delete = Some ''RESTRICT''\<rparr>]"
  by (simp add: firebird_foreign_keys_def fk_tuple_rows_def firebird_fk_row_def tuple_item_def
      andthen_def stripped_or_def strip_def is_space_def fk_action_map_def dict_get_def)

lemma mysql_fk_dict_rows:
  "mysql_foreign_keys fk_dict_rows
     = Inr [\<lparr>fk_name = ''fk_item_pedido'', column_name = ''pedido_id'',
             referenced_table_name = ''pedido'', referenced_column_name = ''id'',
             on_update = Some ''CASCADE'', on_delete = Some ''RESTRICT''\<rparr>,
            \<lparr>fk_name = ''fk_item_pedido'', column_name = ''loja_id'',
             referenced_table_name = ''pedido'', referenced_column_name = ''loja'',
             on_update = Some ''CASCADE'', on_delete = Some ''RESTRICT''\<rparr>]"
  by (simp add: mysql_foreign_keys_def fk_dict_rows_def mysql_fk_row_def row_item_def
      dict_item_def andthen_def)

theorem foreign_keys_per_dialect_witness:
  "(\<exists>fks. firebird_foreign_keys fk_tuple_rows = Inr fks)
   \<and> firebird_foreign_keys fk_tuple_rows
     = Inr [\<lparr>fk_name = ''FK_ITEM_PEDIDO'', column_name = ''PEDIDO_ID'',
             referenced_table_name = ''PEDIDO'', referenced_column_name = ''ID'',
             on_update = Some ''CASCADE'', on_delete = Some ''RESTRICT''\<rparr>]
   \<and> (\<exists>recs. map firebird_fk_row fk_tuple_rows = map Inr recs
          \<and> set (map fk_name [\<lparr>fk_name = ''FK_ITEM_PEDIDO'', column_name = ''PEDIDO_ID'',
             referenced_table_name = ''PEDIDO'', referenced_column_name = ''ID'',
             on_update = Some ''CASCADE'', on_delete = Some ''RESTRICT''\<rparr>])
             = set (map fk_name recs))
   \<and> (\<exists>fks. mysql_foreign_keys fk_dict_rows = Inr fks
          \<and> map mysql_fk_row fk_dict_rows = map Inr fks)"
proof -
  have t: "\<forall>r \<in> set fk_tuple_rows. \<exists>xs. r = TupleRow xs \<and> 6 \<le> length xs
        \<and> (\<forall>v \<in> set xs. \<exists>t. py_str v = Inr t)"
    by (simp add: fk_tuple_rows_def)
  have m: "\<forall>r \<in> set fk_dict_rows. \<exists>d. r = DictRow d
        \<and> (\<forall>k \<in> set [''CONSTRAINT_NAME'', ''COLUMN_NAME'', ''REFERENCED_TABLE_NAME'',
            ''REFERENCED_COLUMN_NAME'', ''UPDATE_RULE'', ''DELETE_RULE''].
              \<exists>v t. map_of d k = Some v \<and> py_str v = Inr t)"
    by (simp add: fk_dict_rows_def)
  have "\<exists>fks. firebird_foreign_keys fk_tuple_rows = Inr fks"
    using foreign_keys_per_dialect [of fk_tuple_rows] t by blast
  moreover have "\<exists>recs. map firebird_fk_row fk_tuple_rows = map Inr recs
          \<and> set (map fk_name [\<lparr>fk_name = ''FK_ITEM_PEDIDO'', column_name = ''PEDIDO_ID'',
             referenced_table_name = ''PEDIDO'', referenced_column_name = ''ID'',
             on_update = Some ''CASCADE'', on_delete = Some ''RESTRICT''\<rparr>])
             = set (map fk_name recs)"
    using foreign_keys_per_dialect [of fk_tuple_rows "[\<lparr>fk_name = ''FK_ITEM_PEDIDO'', column_name = ''PEDIDO_ID'',
             referenced_table_name = ''PEDIDO'', referenced_column_name = ''ID'',
             on_update = Some ''CASCADE'', on_delete = Some ''RESTRICT''\<rparr>]"]
      firebird_fk_tuple_rows
    by blast
  moreover have "\<exists>fks. mysql_foreign_keys fk_dict_rows = Inr fks
          \<and> map mysql_fk_row fk_dict_rows = map Inr fks"
  proof -
    from foreign_keys_per_dialect [of fk_dict_rows] m
    obtain fks where f: "mysql_foreign_keys fk_dict_rows = Inr fks" by blast
    with foreign_keys_per_dialect [of fk_dict_rows fks] show ?thesis by blast
  qed
  ultimately show ?thesis using firebird_fk_tuple_rows by blast
qed

text \<open>
  C7, as stated, fails for MySQL: the two rows of a two-column foreign key give two records
  with the same constraint name.
\<close>

theorem foreign_keys_per_dialect_counterexample:
  "mysql_foreign_keys fk_dict_rows
     = Inr [\<lparr>fk_name = ''fk_item_pedido'', column_name = ''pedido_id'',
             referenced_table_name = ''pedido'', referenced_column_name = ''id'',
             on_update = Some ''CASCADE'', on_delete = Some ''RESTRICT''\<rparr>,
            \<lparr>fk_name = ''fk_item_pedido'', column_name = ''loja_id'',
             referenced_table_name = ''pedido'', referenced_column_name = ''loja'',
             on_update = Some ''CASCADE'', on_delete = Some ''RESTRICT''\<rparr>]"
  by (rule mysql_fk_dict_rows)

lemma firebird_column_fields:
  assumes "firebird_column r = Inr col" "tuple_item r 3 = Inr p" "tuple_item r 4 = Inr v"
  shows "numeric_scale col = map_option uminus (safe_int_conversion v)"
    and "numeric_precision col = safe_int_conversion p"
proof -
  from assms(1) have "\<exists>n t l d c u q fl.
      col = \<lparr>name = n, col_type = t, is_nullable = l, default_value = d, max_length = fl,
        numeric_precision = safe_int_conversion p,
        numeric_scale = (case safe_int_conversion v of None \<Rightarrow> None | Some sc \<Rightarrow> Some (- sc)),
        is_primary_key = u, is_unique = q, comment = c\<rparr>"
    unfolding firebird_column_def Let_def
    by (simp only: andthen_Inr_iff assms(2,3) sum.inject) blast
  then show "numeric_scale col = map_option uminus (safe_int_conversion v)"
    and "numeric_precision col = safe_int_conversion p"
    by (auto split: option.splits)
qed

lemma safe_int_conversion_PInt: "safe_int_conversion (PInt n) = Some n"
  by (simp add: safe_int_conversion_def)

text \<open>
  C8. For a column of the Firebird result whose catalog scale is an integer, the
  \<^verbatim>\<open>numeric_scale\<close> stored is that integer negated; \<^verbatim>\<open>numeric_precision\<close> is the
  converted catalog precision, not negated: an integer is kept as it is, \<^verbatim>\<open>None\<close> stays
  absent.
\<close>

theorem firebird_scale_sign_inverted:
  assumes "firebird_columns results_columns = Inr columns"
    and "i < length results_columns"
    and "tuple_item (results_columns ! i) 3 = Inr p"
    and "tuple_item (results_columns ! i) 4 = Inr (PInt sc)"
  shows "length columns = length results_columns
       \<and> numeric_scale (columns ! i) = Some (- sc)
       \<and> numeric_precision (columns ! i) = safe_int_conversion p
       \<and> (\<forall>n. p = PInt n \<longrightarrow> numeric_precision (columns ! i) = Some n)
       \<and> (p = PNone \<longrightarrow> numeric_precision (columns ! i) = None)"
proof -
  from assms(1) have m: "map firebird_column results_columns = map Inr columns"
    by (simp add: firebird_columns_def collect_Inr)
  then have len: "length columns = length results_columns"
    by (metis length_map)
  from m assms(2) len have "firebird_column (results_columns ! i) = Inr (columns ! i)"
    by (metis nth_map)
  from firebird_column_fields [OF this assms(3,4)] len show ?thesis
    by (auto simp: safe_int_conversion_PInt safe_int_conversion_def)
qed

lemma firebird_columns_example:
  "firebird_columns column_rows
     = Inr [\<lparr>name = ''ID'', col_type = ''INTEGER'', is_nullable = False, default_value = None,
              max_length = Some 4, numeric_precision = Some 0, numeric_scale = Some 0,
              is_primary_key = False, is_unique = False, comment = None\<rparr>,
            \<lparr>name = ''PRECO'', col_type = ''BIGINT'', is_nullable = True, default_value = None,
              max_length = Some 8, numeric_precision = Some 18, numeric_scale = Some 2,
              is_primary_key = False, is_unique = False, comment = Some ''preco unitario''\<rparr>]"
  by (simp add: firebird_columns_def column_rows_def firebird_column_def tuple_item_def
      andthen_def strip_def is_space_def safe_int_conversion_def map_firebird_type_def
      stripped_or_def)

theorem firebird_scale_sign_inverted_witness:
  "(1::nat) < length column_rows
   \<and> tuple_item (column_rows ! 1) 3 = Inr (PInt 18)
   \<and> tuple_item (column_rows ! 1) 4 = Inr (PInt (- 2))
   \<and> (\<exists>columns. firebird_columns column_rows = Inr columns
        \<and> numeric_scale (columns ! 1) = Some (- (- 2))
        \<and> numeric_precision (columns ! 1) = safe_int_conversion (PInt 18))"
proof -
  have h: "(1::nat) < length column_rows"
    "tuple_item (column_rows ! 1) 3 = Inr (PInt 18)"
    "tuple_item (column_rows ! 1) 4 = Inr (PInt (- 2))"
    by (simp_all add: column_rows_def tuple_item_def)
  from firebird_scale_sign_inverted [OF firebird_columns_example h] h firebird_columns_example
  show ?thesis by blast
qed

section \<open>The vault: frame and failed decryption\<close>

lemma dict_get_dict_set:
  "dict_get (dict_set d k v) k' = (if k' = k then Some v else dict_get d k')"
  by (induction d) (auto simp: dict_get_def)

lemma store_set_length: "length (store_set h a k v) = length h"
  by (simp add: store_set_def)

lemma store_set_other: "b \<noteq> a \<Longrightarrow> store_set h a k v ! b = h ! b"
  by (simp add: store_set_def)

lemma store_set_get:
  "a < length h \<Longrightarrow>
   dict_get (store_set h a k v ! a) k' = (if k' = k then Some v else dict_get (h ! a) k')"
  by (simp add: store_set_def dict_get_dict_set)

lemma decrypt_field_length: "length (decrypt_field env f m h k) = length h"
  by (simp add: decrypt_field_def store_set_length
      split: option.splits pyval.splits decrypted.splits)

lemma decrypt_field_other:
  "a \<noteq> decrypted_config m \<Longrightarrow> decrypt_field env f m h k ! a = h ! a"
  by (simp add: decrypt_field_def store_set_other
      split: option.splits pyval.splits decrypted.splits)

lemma decrypt_field_other_key:
  "decrypted_config m < length h \<Longrightarrow> k' \<noteq> k \<Longrightarrow>
   dict_get (decrypt_field env f m h k ! decrypted_config m) k'
     = dict_get (h ! decrypted_config m) k'"
  by (simp add: decrypt_field_def store_set_get
      split: option.splits pyval.splits decrypted.splits)

lemma decrypt_field_enc:
  "decrypted_config m < length h \<Longrightarrow>
   dict_get (h ! raw_config m) k = Some (PStr cv) \<Longrightarrow> startswith cv ''ENC:'' \<Longrightarrow>
   dict_get (decrypt_field env f m h k ! decrypted_config m) k
     = Some (case fernet_decrypt env f (drop 4 cv) of Plain t \<Rightarrow> PStr t | _ \<Rightarrow> PNone)"
  by (simp add: decrypt_field_def store_set_get split: decrypted.splits)

lemma fold_decrypt_frame:
  "length (foldl (decrypt_field env f m) h ks) = length h
   \<and> (\<forall>a. a \<noteq> decrypted_config m \<longrightarrow> foldl (decrypt_field env f m) h ks ! a = h ! a)"
  by (induction ks arbitrary: h) (simp_all add: decrypt_field_length decrypt_field_other)

lemma fold_decrypt_untouched:
  "decrypted_config m < length h \<Longrightarrow> k \<notin> set ks \<Longrightarrow>
   dict_get (foldl (decrypt_field env f m) h ks ! decrypted_config m) k
     = dict_get (h ! decrypted_config m) k"
  by (induction ks arbitrary: h) (auto simp: decrypt_field_length decrypt_field_other_key)

lemma fold_decrypt_enc:
  assumes "decrypted_config m < length h" "raw_config m \<noteq> decrypted_config m"
    "k \<in> set ks" "dict_get (h ! raw_config m) k = Some (PStr cv)" "startswith cv ''ENC:''"
  shows "dict_get (foldl (decrypt_field env f m) h ks ! decrypted_config m) k
     = Some (case fernet_decrypt env f (drop 4 cv) of Plain t \<Rightarrow> PStr t | _ \<Rightarrow> PNone)"
  using assms
proof (induction ks arbitrary: h)
  case Nil
  then show ?case by simp
next
  case (Cons k0 ks)
  let ?h = "decrypt_field env f m h k0"
  have len: "decrypted_config m < length ?h"
    using Cons.prems(1) by (simp add: decrypt_field_length)
  have raw: "dict_get (?h ! raw_config m) k = Some (PStr cv)"
    using Cons.prems(2,4) by (simp add: decrypt_field_other)
  show ?case
  proof (cases "k \<in> set ks")
    case True
    from Cons.IH [OF len Cons.prems(2) True raw Cons.prems(5)] show ?thesis by simp
  next
    case False
    with Cons.prems(3) have "k = k0" by simp
    with False len Cons.prems show ?thesis
      by (simp add: fold_decrypt_untouched decrypt_field_enc)
  qed
qed

lemma decrypt_config_Inr:
  assumes "raw_config m < length h" "decrypt_config env m h = Inr (m', h')"
  shows "m' = m\<lparr>decrypted_config := length h\<rparr>
       \<and> (h' = h @ [h ! raw_config m]
          \<or> (\<exists>fkey. h' = foldl (decrypt_field env fkey m') (h @ [h ! raw_config m]) sensitive_keys))"
  using assms
  by (auto simp: decrypt_config_def deepcopy_def Let_def
      split: sum.splits if_splits pyval.splits option.splits)

text \<open>
  C6. Decryption leaves the raw configuration alone: the manager still refers to the same
  object, that object and every other object of the store are as before, the decrypted
  configuration is another object, and outside the sensitive keys it holds what the raw
  configuration holds.
\<close>

theorem raw_config_not_mutated:
  assumes "raw_config m < length h" "decrypt_config env m h = Inr (m', h')"
  shows "raw_config m' = raw_config m
       \<and> h' ! raw_config m' = h ! raw_config m
       \<and> decrypted_config m' \<noteq> raw_config m'
       \<and> (\<forall>a < length h. h' ! a = h ! a)
       \<and> (\<forall>k. k \<notin> set sensitive_keys \<longrightarrow>
            dict_get (h' ! decrypted_config m') k = dict_get (h ! raw_config m) k)"
proof -
  let ?h1 = "h @ [h ! raw_config m]"
  from decrypt_config_Inr [OF assms] have m': "m' = m\<lparr>decrypted_config := length h\<rparr>"
    and h': "h' = ?h1 \<or> (\<exists>fkey. h' = foldl (decrypt_field env fkey m') ?h1 sensitive_keys)"
    by auto
  have dec: "decrypted_config m' = length h" and raw: "raw_config m' = raw_config m"
    using m' by simp_all
  have old: "h' ! a = h ! a" if "a < length h" for a
    using h' that fold_decrypt_frame [of env _ m' ?h1 sensitive_keys] dec
    by (auto simp: nth_append)
  have new: "dict_get (h' ! decrypted_config m') k = dict_get (h ! raw_config m) k"
    if "k \<notin> set sensitive_keys" for k
    using h' that fold_decrypt_untouched [of m' ?h1 k sensitive_keys env] dec
    by auto
  from old new dec raw assms(1) show ?thesis by auto
qed

theorem raw_config_not_mutated_witness:
  "raw_config demo_manager < length demo_store
   \<and> (\<exists>m' h'. decrypt_config demo_env demo_manager demo_store = Inr (m', h')
        \<and> raw_config m' = raw_config demo_manager
        \<and> h' ! raw_config m' = demo_store ! raw_config demo_manager
        \<and> decrypted_config m' \<noteq> raw_config m')"
proof -
  have h: "raw_config demo_manager < length demo_store"
    by (simp add: demo_manager_def demo_store_def)
  have "\<exists>m' h'. decrypt_config demo_env demo_manager demo_store = Inr (m', h')"
    by (simp add: decrypt_config_def deepcopy_def resolve_key_def key_path_candidate_def Let_def
        demo_env_def demo_manager_def demo_store_def demo_raw_def dict_get_def strip_def
        is_space_def)
  then obtain m' h' where r: "decrypt_config demo_env demo_manager demo_store = Inr (m', h')"
    by blast
  from raw_config_not_mutated [OF h r] h r show ?thesis by blast
qed

text \<open>
  C2. With a key that Fernet accepts, a sensitive field whose raw value carries the marker
  \<^verbatim>\<open>ENC:\<close> and whose ciphertext does not decrypt is set to \<^verbatim>\<open>None\<close> in the
  decrypted configuration; nothing is raised, and the other sensitive fields are processed:
  each one whose ciphertext decrypts holds its plaintext.
\<close>

theorem corrupt_ciphertext_becomes_none:
  assumes "raw_config m < length h"
    and "resolve_key env (h ! raw_config m) = Inr (PStr fkey)" "fkey \<noteq> []"
    and "fernet_rejects env fkey = None"
    and "k \<in> set sensitive_keys"
    and "dict_get (h ! raw_config m) k = Some (PStr cv)" "startswith cv ''ENC:''"
    and "\<forall>t. fernet_decrypt env fkey (drop 4 cv) \<noteq> Plain t"
  shows "\<exists>m' h'. decrypt_config env m h = Inr (m', h')
      \<and> dict_get (h' ! decrypted_config m') k = Some PNone
      \<and> (\<forall>k' \<in> set sensitive_keys. \<forall>cv' t.
           dict_get (h ! raw_config m) k' = Some (PStr cv') \<and> startswith cv' ''ENC:''
           \<and> fernet_decrypt env fkey (drop 4 cv') = Plain t
           \<longrightarrow> dict_get (h' ! decrypted_config m') k' = Some (PStr t))"
proof -
  let ?h1 = "h @ [h ! raw_config m]"
  let ?m = "m\<lparr>decrypted_config := length h\<rparr>"
  let ?h = "foldl (decrypt_field env fkey ?m) ?h1 sensitive_keys"
  have r: "decrypt_config env m h = Inr (?m, ?h)"
    using assms(2,3,4) by (simp add: decrypt_config_def deepcopy_def Let_def)
  have len: "decrypted_config ?m < length ?h1" and ne: "raw_config ?m \<noteq> decrypted_config ?m"
    using assms(1) by simp_all
  have raw: "?h1 ! raw_config ?m = h ! raw_config m"
    using assms(1) by (simp add: nth_append)
  have enc: "dict_get (?h ! decrypted_config ?m) k'
      = Some (case fernet_decrypt env fkey (drop 4 cv') of Plain t \<Rightarrow> PStr t | _ \<Rightarrow> PNone)"
    if "k' \<in> set sensitive_keys" "dict_get (h ! raw_config m) k' = Some (PStr cv')"
      "startswith cv' ''ENC:''" for k' cv'
    using fold_decrypt_enc [OF len ne that(1) _ that(3), of env fkey] that(2) raw by simp
  have "dict_get (?h ! decrypted_config ?m) k = Some PNone"
    using enc [OF assms(5,6,7)] assms(8) by (simp split: decrypted.splits)
  moreover have "\<forall>k' \<in> set sensitive_keys. \<forall>cv' t.
           dict_get (h ! raw_config m) k' = Some (PStr cv') \<and> startswith cv' ''ENC:''
           \<and> fernet_decrypt env fkey (drop 4 cv') = Plain t
           \<longrightarrow> dict_get (?h ! decrypted_config ?m) k' = Some (PStr t)"
    using enc by auto
  ultimately show ?thesis using r by blast
qed

theorem corrupt_ciphertext_becomes_none_witness:
  "raw_config demo_manager < length demo_store
   \<and> resolve_key demo_env (demo_store ! raw_config demo_manager) = Inr (PStr ''key-1'')
   \<and> fernet_rejects demo_env ''key-1'' = None
   \<and> dict_get (demo_store ! raw_config demo_manager) ''password'' = Some (PStr ''ENC:corrupted'')
   \<and> startswith ''ENC:corrupted'' ''ENC:''
   \<and> fernet_decrypt demo_env ''key-1'' (drop 4 ''ENC:corrupted'') = InvalidToken
   \<and> dict_get (demo_store ! raw_config demo_manager) ''user'' = Some (PStr ''ENC:dG9rZW4='')
   \<and> fernet_decrypt demo_env ''key-1'' (drop 4 ''ENC:dG9rZW4='') = Plain ''app_user''
   \<and> (\<exists>m' h'. decrypt_config demo_env demo_manager demo_store = Inr (m', h')
        \<and> dict_get (h' ! decrypted_config m') ''password'' = Some PNone
        \<and> dict_get (h' ! decrypted_config m') ''user'' = Some (PStr ''app_user''))"
proof -
  have h: "raw_config demo_manager < length demo_store"
    "resolve_key demo_env (demo_store ! raw_config demo_manager) = Inr (PStr ''key-1'')"
    "''key-1'' \<noteq> []"
    "fernet_rejects demo_env ''key-1'' = None"
    "''password'' \<in> set sensitive_keys"
    "dict_get (demo_store ! raw_config demo_manager) ''password'' = Some (PStr ''ENC:corrupted'')"
    "startswith ''ENC:corrupted'' ''ENC:''"
    "\<forall>t. fernet_decrypt demo_env ''key-1'' (drop 4 ''ENC:corrupted'') \<noteq> Plain t"
    by (simp_all add: demo_manager_def demo_store_def demo_raw_def demo_env_def resolve_key_def
        key_path_candidate_def dict_get_def strip_def is_space_def sensitive_keys_def
        startswith_def)
  have u: "''user'' \<in> set sensitive_keys"
    "dict_get (demo_store ! raw_config demo_manager) ''user'' = Some (PStr ''ENC:dG9rZW4='')"
    "startswith ''ENC:dG9rZW4='' ''ENC:''"
    "fernet_decrypt demo_env ''key-1'' (drop 4 ''ENC:dG9rZW4='') = Plain ''app_user''"
    "fernet_decrypt demo_env ''key-1'' (drop 4 ''ENC:corrupted'') = InvalidToken"
    by (simp_all add: demo_manager_def demo_store_def demo_raw_def demo_env_def dict_get_def
        sensitive_keys_def startswith_def)
  from corrupt_ciphertext_becomes_none [OF h] obtain m' h' where
    r: "decrypt_config demo_env demo_manager demo_store = Inr (m', h')"
      "dict_get (h' ! decrypted_config m') ''password'' = Some PNone"
    and a: "\<forall>k' \<in> set sensitive_keys. \<forall>cv' t.
           dict_get (demo_store ! raw_config demo_manager) k' = Some (PStr cv')
           \<and> startswith cv' ''ENC:''
           \<and> fernet_decrypt demo_env ''key-1'' (drop 4 cv') = Plain t
           \<longrightarrow> dict_get (h' ! decrypted_config m') k' = Some (PStr t)"
    by blast
  from a u have "dict_get (h' ! decrypted_config m') ''user'' = Some (PStr ''app_user'')"
    by blast
  with r h u show ?thesis by blast
qed

end
